theory Spec2Isabelle
  imports Complex_Main "HOL-Library.AList" "HOL-Library.Sublist"
begin

section \<open>The host: data-blocks of the editor\<close>

text \<open>
  The add-on \<^verbatim>\<open>aurora_generator.py\<close> drives the host editor through its Python
  interface. The host keeps named data-blocks (objects, curves, meshes, textures,
  materials); a Python variable holds a reference to a data-block, a custom property
  of an object holds a name. The model keeps each collection of \<^verbatim>\<open>bpy.data\<close> as a
  list of pairs of a reference (a number) and the data-block, in creation order, so that
  a reference stays valid when the data-block is renamed and a name is looked up by
  search, as \<^verbatim>\<open>bpy.data.objects.get(name)\<close> does. Coordinates and the other
  \<^verbatim>\<open>float\<close> values are real numbers.
\<close>

type_synonym ptr = nat
type_synonym vec3 = "real \<times> real \<times> real"
type_synonym rgba = "real \<times> real \<times> real \<times> real"

datatype error = ReferenceError | IndexError | TypeError | KeyError | AttributeError | PollFailed

datatype status = RUNNING_MODAL | FINISHED | CANCELLED | PASS_THROUGH

datatype handle_type = FREE | VECTOR | ALIGNED | AUTO

record bezier_point =
  co :: vec3
  handle_left_type :: handle_type
  handle_right_type :: handle_type

record spline =
  spline_type :: string
  bezier_points :: "bezier_point list"

record curve =
  cu_name :: string
  dimensions :: string
  splines :: "spline list"

datatype ob_kind = CURVE | MESH | EMPTY

record modifier =
  md_name :: string
  md_type :: string
  md_object :: "ptr option"
  md_texture :: "ptr option"
  md_strength :: real
  md_direction :: string

text \<open>
  An object: its name, its type, the reference to its data (a curve of \<open>curves\<close> for
  \<open>CURVE\<close>, a mesh of \<open>meshes\<close> for \<open>MESH\<close>), its custom properties
  (\<^verbatim>\<open>ob["key"]\<close>, here always strings) in the order they were first written,
  its modifier stack, its scale and its rotation about X
  (\<^verbatim>\<open>rotation_euler[0]\<close>), and its selection flag.
\<close>

record object =
  ob_name :: string
  ob_type :: ob_kind
  ob_data :: "ptr option"
  ob_props :: "(string \<times> string) list"
  modifiers :: "modifier list"
  ob_scale :: vec3
  rotation_euler_x :: real
  ob_select :: bool

text \<open>
  A mesh made by the plane primitive is kept in parametric form: its extent along the
  local X and Y axes before any baked rotation, the \<^verbatim>\<open>subdivide\<close> calls it
  received (number of cuts, smoothness), the rotation about X that has been applied to
  its vertices, and its material slots. \<open>me_other_users\<close> counts the users of the mesh
  that are not objects of \<open>objects\<close>.
\<close>

record mesh =
  me_name :: string
  me_dim_x :: real
  me_dim_y :: real
  me_subdivide :: "(int \<times> real) list"
  me_rot_x :: real
  me_materials :: "ptr list"
  me_other_users :: nat

record texture =
  tx_name :: string
  tx_type :: string
  noise_scale_tx :: real
  tx_other_users :: nat

subsection \<open>Names\<close>

text \<open>
  The host keeps the names of one collection unique: a new data-block whose name is taken
  gets the first free name among \<open>base.001\<close>, \<open>base.002\<close>, ...
\<close>

definition digit_char :: "nat \<Rightarrow> char" where
  "digit_char d = char_of (48 + d)"

fun digits :: "nat \<Rightarrow> string" where
  "digits n = (if n < 10 then [digit_char n] else digits (n div 10) @ [digit_char (n mod 10)])"

declare digits.simps [simp del]

definition pad3 :: "nat \<Rightarrow> string" where
  "pad3 n = replicate (3 - length (digits n)) (CHR ''0'') @ digits n"

definition numbered :: "string \<Rightarrow> nat \<Rightarrow> string" where
  "numbered base k = base @ ''.'' @ pad3 k"

definition unique_name :: "string \<Rightarrow> string list \<Rightarrow> string" where
  "unique_name base taken =
     (case find (\<lambda>c. c \<notin> set taken) (base # map (numbered base) [1..<length taken + 2]) of
        Some c \<Rightarrow> c
      | None \<Rightarrow> base)"

definition undec :: "string \<Rightarrow> nat" where
  "undec s = foldl (\<lambda>a c. 10 * a + (of_char c - 48)) 0 s"

subsection \<open>The state of the editor\<close>

datatype interp = BEZIER | LINEAR | CONSTANT

datatype sval = NoValue | FloatV real | VecV real real real | ColV real real real real

datatype node_type =
    ShaderNodeOutputMaterial | ShaderNodeMixShader | ShaderNodeEmission
  | ShaderNodeBsdfTransparent | ShaderNodeValToRGB | ShaderNodeSeparateXYZ
  | ShaderNodeTexCoord | ShaderNodeTexNoise | ShaderNodeMapping | ShaderNodeMath

record node =
  nd_name :: string
  nd_type :: node_type
  nd_location :: "int \<times> int"
  operation :: string
  inputs :: "(string \<times> sval) list"
  elements :: "(real \<times> rgba) list"

record link =
  from_node :: nat
  from_socket :: nat
  to_node :: nat
  to_socket :: nat

record keyframe =
  kf_frame :: int
  kf_value :: real
  interpolation :: interp

record fcurve =
  data_path :: string
  array_index :: nat
  keyframe_points :: "keyframe list"
  fc_modifiers :: "string list"

record material =
  ma_name :: string
  use_nodes :: bool
  blend_method :: string
  nodes :: "node list"
  links :: "link list"
  animation_data :: "fcurve list option"

record bstate =
  objects :: "(ptr \<times> object) list"
  curves :: "(ptr \<times> curve) list"
  meshes :: "(ptr \<times> mesh) list"
  textures :: "(ptr \<times> texture) list"
  materials :: "(ptr \<times> material) list"
  collection :: "ptr list"
  next_ptr :: ptr
  active_object :: "ptr option"
  edit_mode :: bool
  space_type :: string
  region_2d_to_origin_3d :: "int \<times> int \<Rightarrow> vec3"
  region_2d_to_vector_3d :: "int \<times> int \<Rightarrow> vec3"
  draw_handlers :: "nat list"
  modal_handlers :: nat
  cursor :: string
  redraws :: nat
  reports :: "(string \<times> string) list"
  keyframe_interpolation :: interp

definition report :: "string \<Rightarrow> string \<Rightarrow> bstate \<Rightarrow> bstate" where
  "report level msg s = s\<lparr>reports := reports s @ [(level, msg)]\<rparr>"

definition cursor_set :: "string \<Rightarrow> bstate \<Rightarrow> bstate" where
  "cursor_set c s = s\<lparr>cursor := c\<rparr>"

definition names :: "('a \<Rightarrow> string) \<Rightarrow> (ptr \<times> 'a) list \<Rightarrow> string list" where
  "names nm xs = map (\<lambda>(p, x). nm x) xs"

text \<open>\<^verbatim>\<open>bpy.data.<collection>.get(name)\<close>: the data-block of that name, or \<open>None\<close>.\<close>

definition get_by_name :: "('a \<Rightarrow> string) \<Rightarrow> (ptr \<times> 'a) list \<Rightarrow> string \<Rightarrow> (ptr \<times> 'a) option" where
  "get_by_name nm xs n = find (\<lambda>(p, x). nm x = n) xs"

definition update_at :: "ptr \<Rightarrow> ('a \<Rightarrow> 'a) \<Rightarrow> (ptr \<times> 'a) list \<Rightarrow> (ptr \<times> 'a) list" where
  "update_at p f xs = map (\<lambda>(q, x). if q = p then (q, f x) else (q, x)) xs"

definition delete_at :: "ptr \<Rightarrow> (ptr \<times> 'a) list \<Rightarrow> (ptr \<times> 'a) list" where
  "delete_at p xs = filter (\<lambda>(q, x). q \<noteq> p) xs"

text \<open>\<^verbatim>\<open>bpy.data.curves.new(name, type='CURVE')\<close> and \<^verbatim>\<open>splines.new('BEZIER')\<close>,
  which makes a spline of one control point at the origin with free handles.\<close>

definition curves_new :: "string \<Rightarrow> bstate \<Rightarrow> ptr \<times> bstate" where
  "curves_new n s =
     (next_ptr s,
      s\<lparr>curves := curves s @
           [(next_ptr s, \<lparr>cu_name = unique_name n (names cu_name (curves s)),
                          dimensions = ''2D'', splines = []\<rparr>)],
        next_ptr := Suc (next_ptr s)\<rparr>)"

definition new_bezier_point :: bezier_point where
  "new_bezier_point = \<lparr>co = (0, 0, 0), handle_left_type = FREE, handle_right_type = FREE\<rparr>"

definition splines_new :: "string \<Rightarrow> curve \<Rightarrow> curve" where
  "splines_new t c =
     c\<lparr>splines := splines c @ [\<lparr>spline_type = t, bezier_points = [new_bezier_point]\<rparr>]\<rparr>"

text \<open>\<^verbatim>\<open>bpy.data.objects.new(name, data)\<close>: a new object, not yet in any collection.\<close>

definition objects_new :: "string \<Rightarrow> ob_kind \<Rightarrow> ptr option \<Rightarrow> bstate \<Rightarrow> ptr \<times> bstate" where
  "objects_new n k d s =
     (next_ptr s,
      s\<lparr>objects := objects s @
           [(next_ptr s, \<lparr>ob_name = unique_name n (names ob_name (objects s)), ob_type = k,
                          ob_data = d, ob_props = [], modifiers = [], ob_scale = (1, 1, 1),
                          rotation_euler_x = 0, ob_select = False\<rparr>)],
        next_ptr := Suc (next_ptr s)\<rparr>)"

text \<open>\<^verbatim>\<open>bpy.data.objects.remove(ob, do_unlink=True)\<close>: the object leaves
  \<^verbatim>\<open>bpy.data.objects\<close> and every collection, it is no longer active, and a modifier of
  another object that pointed to it points to nothing.\<close>

definition objects_remove :: "ptr \<Rightarrow> bstate \<Rightarrow> bstate" where
  "objects_remove p s =
     s\<lparr>objects := map (\<lambda>(q, ob). (q, ob\<lparr>modifiers :=
                      map (\<lambda>m. if md_object m = Some p then m\<lparr>md_object := None\<rparr> else m)
                          (modifiers ob)\<rparr>))
                    (delete_at p (objects s)),
       collection := removeAll p (collection s),
       active_object := (if active_object s = Some p then None else active_object s)\<rparr>"

definition select_all_DESELECT :: "bstate \<Rightarrow> bstate" where
  "select_all_DESELECT s =
     s\<lparr>objects := map (\<lambda>(q, ob). (q, ob\<lparr>ob_select := False\<rparr>)) (objects s)\<rparr>"

definition select_set :: "ptr \<Rightarrow> bool \<Rightarrow> bstate \<Rightarrow> bstate" where
  "select_set p b s = s\<lparr>objects := update_at p (\<lambda>ob. ob\<lparr>ob_select := b\<rparr>) (objects s)\<rparr>"

section \<open>Path capture: \<^verbatim>\<open>CURVE_OT_DrawPath\<close>\<close>

text \<open>The attributes of the operator instance (\<^verbatim>\<open>self\<close>) and the fields of an
  event that \<^verbatim>\<open>modal\<close> reads.\<close>

record draw_path =
  points :: "vec3 list"
  curve_ob :: "ptr option"
  handle :: nat

record event =
  ev_type :: string
  ev_value :: string
  mouse_region_x :: int
  mouse_region_y :: int

definition vec_z :: "vec3 \<Rightarrow> real" where
  "vec_z v = snd (snd v)"

definition vec_add :: "vec3 \<Rightarrow> vec3 \<Rightarrow> vec3" where
  "vec_add a b = (fst a + fst b, fst (snd a) + fst (snd b), snd (snd a) + snd (snd b))"

definition vec_scale :: "real \<Rightarrow> vec3 \<Rightarrow> vec3" where
  "vec_scale t v = (t * fst v, t * fst (snd v), t * snd (snd v))"

definition invoke :: "draw_path \<Rightarrow> bstate \<Rightarrow> status \<times> draw_path \<times> bstate" where
  "invoke self s =
     (if space_type s = ''VIEW_3D'' then
        (let self = self\<lparr>points := [], curve_ob := None\<rparr>;
             h = next_ptr s;
             s = s\<lparr>draw_handlers := draw_handlers s @ [h], next_ptr := Suc (next_ptr s)\<rparr>;
             self = self\<lparr>handle := h\<rparr>;
             s = s\<lparr>modal_handlers := Suc (modal_handlers s)\<rparr>;
             s = cursor_set ''CROSSHAIR'' s;
             s = report ''INFO''
                   ''Click to add points. Enter/Right-click to finish. Esc to cancel.'' s
         in (RUNNING_MODAL, self, s))
      else (CANCELLED, self, report ''WARNING'' ''Active space must be a 3D View.'' s))"

text \<open>
  \<^verbatim>\<open>update_curve\<close>. A reference that no longer resolves raises in Python
  (\<open>ReferenceError\<close>); an object that is not a curve has no \<^verbatim>\<open>splines\<close>
  (\<open>AttributeError\<close>); a curve without splines has no \<^verbatim>\<open>splines[0]\<close>
  (\<open>IndexError\<close>). The loop over \<^verbatim>\<open>enumerate(self.points)\<close> writes the first
  \<open>len(self.points)\<close> control points, which exist after \<^verbatim>\<open>bezier_points.add\<close>.
\<close>

definition set_points :: "vec3 list \<Rightarrow> bezier_point list \<Rightarrow> bezier_point list" where
  "set_points ps bps =
     map (\<lambda>(point_co, bp). bp\<lparr>co := point_co, handle_left_type := AUTO,
                                 handle_right_type := AUTO\<rparr>) (zip ps bps)
     @ drop (length ps) bps"

definition update_curve :: "draw_path \<Rightarrow> bstate \<Rightarrow> error + (draw_path \<times> bstate)" where
  "update_curve self s =
     (let (self, s) =
        (case curve_ob self of
           None \<Rightarrow>
             (let (curve_data, s) = curves_new ''AuroraPath'' s;
                  s = s\<lparr>curves := update_at curve_data
                         (\<lambda>c. splines_new ''BEZIER'' (c\<lparr>dimensions := ''3D''\<rparr>)) (curves s)\<rparr>;
                  (ob, s) = objects_new ''AuroraCurve'' CURVE (Some curve_data) s;
                  s = s\<lparr>collection := collection s @ [ob]\<rparr>
              in (self\<lparr>curve_ob := Some ob\<rparr>, s))
         | Some ob \<Rightarrow> (self, s))
      in case curve_ob self of
           None \<Rightarrow> Inl AttributeError
         | Some ob \<Rightarrow>
            (case map_of (objects s) ob of
               None \<Rightarrow> Inl ReferenceError
             | Some obj \<Rightarrow>
                (case (if ob_type obj = CURVE then ob_data obj else None) of
                   None \<Rightarrow> Inl AttributeError
                 | Some d \<Rightarrow>
                    (case map_of (curves s) d of
                       None \<Rightarrow> Inl ReferenceError
                     | Some c \<Rightarrow>
                        (case splines c of
                           [] \<Rightarrow> Inl IndexError
                         | spl # rest \<Rightarrow>
                            (let num_points = length (points self);
                                 bps = bezier_points spl;
                                 bps = (if length bps < num_points
                                        then bps @ replicate (num_points - length bps)
                                                     new_bezier_point
                                        else bps);
                                 bps = set_points (points self) bps
                             in Inr (self,
                                  s\<lparr>curves := update_at d
                                      (\<lambda>c. c\<lparr>splines := spl\<lparr>bezier_points := bps\<rparr> # rest\<rparr>)
                                      (curves s)\<rparr>)))))))"

definition draw_handler_remove :: "nat \<Rightarrow> bstate \<Rightarrow> bstate" where
  "draw_handler_remove h s = s\<lparr>draw_handlers := removeAll h (draw_handlers s)\<rparr>"

definition finish :: "draw_path \<Rightarrow> bstate \<Rightarrow> error + (draw_path \<times> bstate)" where
  "finish self s =
     (let s = draw_handler_remove (handle self) s in
      case (case curve_ob self of
              None \<Rightarrow> Inr s
            | Some ob \<Rightarrow>
               (let s = select_all_DESELECT s in
                if ob \<in> fst ` set (objects s)
                then Inr ((select_set ob True s)\<lparr>active_object := Some ob\<rparr>)
                else Inl ReferenceError)) of
        Inl e \<Rightarrow> Inl e
      | Inr s \<Rightarrow> Inr (self, report ''INFO'' ''Path created.'' (cursor_set ''DEFAULT'' s)))"

definition cancel :: "draw_path \<Rightarrow> bstate \<Rightarrow> error + (draw_path \<times> bstate)" where
  "cancel self s =
     (let s = draw_handler_remove (handle self) s in
      case (case curve_ob self of
              None \<Rightarrow> Inr s
            | Some ob \<Rightarrow>
               if ob \<in> fst ` set (objects s) then Inr (objects_remove ob s)
               else Inl ReferenceError) of
        Inl e \<Rightarrow> Inl e
      | Inr s \<Rightarrow>
          Inr (self, report ''INFO'' ''Path drawing cancelled.'' (cursor_set ''DEFAULT'' s)))"

text \<open>
  \<^verbatim>\<open>modal\<close>. The ray of a click comes from the host's view
  (\<^verbatim>\<open>region_2d_to_origin_3d\<close>, \<^verbatim>\<open>region_2d_to_vector_3d\<close>). \<open>location\<close> is
  \<open>None\<close> or a vector; a vector is true in \<^verbatim>\<open>if location:\<close> whatever its
  coordinates, so the test is on \<open>None\<close>.
\<close>

definition click_location :: "vec3 \<Rightarrow> vec3 \<Rightarrow> vec3 option" where
  "click_location origin vec =
     (if vec_z vec \<noteq> 0 then
        (let t = - vec_z origin / vec_z vec in
         if t > 0 then Some (vec_add origin (vec_scale t vec)) else None)
      else None)"

definition modal :: "event \<Rightarrow> draw_path \<Rightarrow> bstate \<Rightarrow> error + (status \<times> draw_path \<times> bstate)" where
  "modal ev self s =
     (let s = s\<lparr>redraws := Suc (redraws s)\<rparr> in
      if ev_type ev \<in> {''RIGHTMOUSE'', ''RET''} then
        (case finish self s of Inl e \<Rightarrow> Inl e | Inr (self, s) \<Rightarrow> Inr (FINISHED, self, s))
      else if ev_type ev = ''ESC'' then
        (case cancel self s of Inl e \<Rightarrow> Inl e | Inr (self, s) \<Rightarrow> Inr (CANCELLED, self, s))
      else if ev_type ev = ''LEFTMOUSE'' \<and> ev_value ev = ''PRESS'' then
        (let coord = (mouse_region_x ev, mouse_region_y ev);
             origin = region_2d_to_origin_3d s coord;
             vec = region_2d_to_vector_3d s coord
         in case click_location origin vec of
              Some location \<Rightarrow>
                (case update_curve (self\<lparr>points := points self @ [location]\<rparr>) s of
                   Inl e \<Rightarrow> Inl e
                 | Inr (self, s) \<Rightarrow> Inr (RUNNING_MODAL, self, s))
            | None \<Rightarrow> Inr (RUNNING_MODAL, self, s))
      else Inr (PASS_THROUGH, self, s))"

text \<open>The host calls \<^verbatim>\<open>modal\<close> for each event while the operator has not ended.\<close>

fun run_modal :: "event list \<Rightarrow> draw_path \<Rightarrow> bstate \<Rightarrow> error + (status \<times> draw_path \<times> bstate)" where
  "run_modal [] self s = Inr (RUNNING_MODAL, self, s)"
| "run_modal (ev # evs) self s =
     (case modal ev self s of
        Inl e \<Rightarrow> Inl e
      | Inr (st, self', s') \<Rightarrow>
          if st = FINISHED \<or> st = CANCELLED then Inr (st, self', s')
          else run_modal evs self' s')"


section \<open>The effect compiler: \<^verbatim>\<open>AURORA_OT_Create\<close>\<close>

text \<open>The parameter set (\<^verbatim>\<open>AuroraGeneratorProperties\<close>) and the ranges the host
  enforces on it.\<close>

record aurora_props =
  aurora_height :: real
  subdivisions :: int
  color1 :: rgba
  color2 :: rgba
  emission_strength :: real
  noise_scale :: real
  noise_distortion :: real
  animate :: bool

definition in_unit :: "rgba \<Rightarrow> bool" where
  "in_unit c = (case c of (r, g, b, a) \<Rightarrow>
     0 \<le> r \<and> r \<le> 1 \<and> 0 \<le> g \<and> g \<le> 1 \<and> 0 \<le> b \<and> b \<le> 1 \<and> 0 \<le> a \<and> a \<le> 1)"

definition valid_props :: "aurora_props \<Rightarrow> bool" where
  "valid_props p =
     (1 / 10 \<le> aurora_height p \<and> 2 \<le> subdivisions p \<and> subdivisions p \<le> 1024 \<and>
      in_unit (color1 p) \<and> in_unit (color2 p) \<and> 0 \<le> emission_strength p \<and>
      1 / 10 \<le> noise_scale p \<and> 0 \<le> noise_distortion p)"

definition poll :: "bstate \<Rightarrow> bool" where
  "poll s =
     (case active_object s of
        None \<Rightarrow> False
      | Some p \<Rightarrow> (case map_of (objects s) p of None \<Rightarrow> False | Some ob \<Rightarrow> ob_type ob = CURVE))"

subsection \<open>Host operations used by \<^verbatim>\<open>execute\<close>\<close>

text \<open>The user count of the data of an object and of a texture: the references held by
  objects and modifiers of the scene, and the other users the data-block records.\<close>

definition data_users :: "bstate \<Rightarrow> ob_kind \<Rightarrow> ptr \<Rightarrow> nat" where
  "data_users s k d =
     length (filter (\<lambda>(q, ob). ob_type ob = k \<and> ob_data ob = Some d) (objects s)) +
     (if k = MESH then (case map_of (meshes s) d of Some me \<Rightarrow> me_other_users me | None \<Rightarrow> 0)
      else 0)"

definition texture_users :: "bstate \<Rightarrow> ptr \<Rightarrow> nat" where
  "texture_users s t =
     length (concat (map (\<lambda>(q, ob). filter (\<lambda>m. md_texture m = Some t) (modifiers ob))
                         (objects s))) +
     (case map_of (textures s) t of Some tx \<Rightarrow> tx_other_users tx | None \<Rightarrow> 0)"

definition meshes_remove :: "ptr \<Rightarrow> bstate \<Rightarrow> bstate" where
  "meshes_remove m s = s\<lparr>meshes := delete_at m (meshes s)\<rparr>"

definition textures_remove :: "ptr \<Rightarrow> bstate \<Rightarrow> bstate" where
  "textures_remove t s = s\<lparr>textures := delete_at t (textures s)\<rparr>"

text \<open>\<^verbatim>\<open>bpy.ops.mesh.primitive_plane_add(enter_editmode=True)\<close>: a square of side 2 (the
  default \<^verbatim>\<open>size\<close>) in the XY plane, as a new mesh and a new object named
  \<open>Plane\<close>, linked to the collection; the other objects are deselected, the new one is
  selected and active.\<close>

definition primitive_plane_add :: "bool \<Rightarrow> bstate \<Rightarrow> bstate" where
  "primitive_plane_add enter_editmode s =
     (let m = next_ptr s; ob = Suc (next_ptr s); s = select_all_DESELECT s in
      s\<lparr>meshes := meshes s @
           [(m, \<lparr>me_name = unique_name ''Plane'' (names me_name (meshes s)),
                 me_dim_x = 2, me_dim_y = 2, me_subdivide = [], me_rot_x = 0,
                 me_materials = [], me_other_users = 0\<rparr>)],
        objects := objects s @
           [(ob, \<lparr>ob_name = unique_name ''Plane'' (names ob_name (objects s)), ob_type = MESH,
                  ob_data = Some m, ob_props = [], modifiers = [], ob_scale = (1, 1, 1),
                  rotation_euler_x = 0, ob_select = True\<rparr>)],
        collection := collection s @ [ob],
        next_ptr := Suc (Suc (next_ptr s)),
        active_object := Some ob,
        edit_mode := enter_editmode\<rparr>)"

text \<open>Assigning \<^verbatim>\<open>ob.name\<close>: the host makes the name unique among the other objects.\<close>

definition rename_object :: "ptr \<Rightarrow> string \<Rightarrow> bstate \<Rightarrow> bstate" where
  "rename_object p n s =
     s\<lparr>objects := update_at p
         (\<lambda>ob. ob\<lparr>ob_name := unique_name n (names ob_name (delete_at p (objects s)))\<rparr>)
         (objects s)\<rparr>"

text \<open>\<^verbatim>\<open>bpy.ops.transform.resize(value=v)\<close>: in edit mode the selected geometry of the
  active mesh (after \<^verbatim>\<open>primitive_plane_add\<close>: all of it) is scaled, in object mode
  the object.\<close>

definition transform_resize :: "vec3 \<Rightarrow> bstate \<Rightarrow> bstate" where
  "transform_resize v s =
     (case active_object s of
        None \<Rightarrow> s
      | Some p \<Rightarrow>
         (case map_of (objects s) p of
            None \<Rightarrow> s
          | Some ob \<Rightarrow>
             if edit_mode s then
               (case ob_data ob of
                  None \<Rightarrow> s
                | Some m \<Rightarrow>
                   s\<lparr>meshes := update_at m
                       (\<lambda>me. me\<lparr>me_dim_x := \<bar>fst v\<bar> * me_dim_x me,
                                 me_dim_y := \<bar>fst (snd v)\<bar> * me_dim_y me\<rparr>) (meshes s)\<rparr>)
             else
               s\<lparr>objects := update_at p
                   (\<lambda>ob. ob\<lparr>ob_scale := (fst v * fst (ob_scale ob),
                                           fst (snd v) * fst (snd (ob_scale ob)),
                                           snd (snd v) * snd (snd (ob_scale ob)))\<rparr>)
                   (objects s)\<rparr>))"

text \<open>\<^verbatim>\<open>bpy.ops.mesh.subdivide(number_cuts=n, smoothness=x)\<close> on the mesh in edit
  mode; the mesh records the request.\<close>

definition mesh_subdivide :: "int \<Rightarrow> real \<Rightarrow> bstate \<Rightarrow> bstate" where
  "mesh_subdivide number_cuts smoothness s =
     (case active_object s of
        None \<Rightarrow> s
      | Some p \<Rightarrow>
         (case map_of (objects s) p of
            None \<Rightarrow> s
          | Some ob \<Rightarrow>
             (case ob_data ob of
                None \<Rightarrow> s
              | Some m \<Rightarrow>
                 if edit_mode s then
                   s\<lparr>meshes := update_at m
                       (\<lambda>me. me\<lparr>me_subdivide := me_subdivide me @ [(number_cuts, smoothness)]\<rparr>)
                       (meshes s)\<rparr>
                 else s)))"

definition mode_set_OBJECT :: "bstate \<Rightarrow> bstate" where
  "mode_set_OBJECT s = s\<lparr>edit_mode := False\<rparr>"

text \<open>\<^verbatim>\<open>bpy.ops.object.transform_apply(location, rotation, scale)\<close> for the active
  object (the only selected one after \<^verbatim>\<open>primitive_plane_add\<close>): with
  \<open>rotation\<close>, the rotation of the object goes into the vertices of its mesh and the
  object's rotation becomes zero.\<close>

definition transform_apply :: "bool \<Rightarrow> bool \<Rightarrow> bool \<Rightarrow> bstate \<Rightarrow> bstate" where
  "transform_apply loc rot scale s =
     (case active_object s of
        None \<Rightarrow> s
      | Some p \<Rightarrow>
         (case map_of (objects s) p of
            None \<Rightarrow> s
          | Some ob \<Rightarrow>
             (case ob_data ob of
                None \<Rightarrow> s
              | Some m \<Rightarrow>
                 if rot then
                   s\<lparr>meshes := update_at m
                       (\<lambda>me. me\<lparr>me_rot_x := me_rot_x me + rotation_euler_x ob\<rparr>) (meshes s),
                     objects := update_at p (\<lambda>ob. ob\<lparr>rotation_euler_x := 0\<rparr>) (objects s)\<rparr>
                 else s)))"

definition modifiers_new :: "string \<Rightarrow> string \<Rightarrow> modifier" where
  "modifiers_new n t =
     \<lparr>md_name = n, md_type = t, md_object = None, md_texture = None, md_strength = 1,
      md_direction = ''NORMAL''\<rparr>"

definition textures_new :: "string \<Rightarrow> string \<Rightarrow> bstate \<Rightarrow> ptr \<times> bstate" where
  "textures_new n t s =
     (next_ptr s,
      s\<lparr>textures := textures s @
           [(next_ptr s, \<lparr>tx_name = unique_name n (names tx_name (textures s)), tx_type = t,
                          noise_scale_tx = 1 / 4, tx_other_users = 0\<rparr>)],
        next_ptr := Suc (next_ptr s)\<rparr>)"

definition materials_new :: "string \<Rightarrow> bstate \<Rightarrow> ptr \<times> bstate" where
  "materials_new n s =
     (next_ptr s,
      s\<lparr>materials := materials s @
           [(next_ptr s, \<lparr>ma_name = unique_name n (names ma_name (materials s)),
                          use_nodes = False, blend_method = ''OPAQUE'', nodes = [], links = [],
                          animation_data = None\<rparr>)],
        next_ptr := Suc (next_ptr s)\<rparr>)"

text \<open>\<^verbatim>\<open>ob[key] = value\<close> and \<^verbatim>\<open>key in ob\<close> on the custom properties.\<close>

definition set_prop :: "ptr \<Rightarrow> string \<Rightarrow> string \<Rightarrow> bstate \<Rightarrow> bstate" where
  "set_prop p k v s =
     s\<lparr>objects := update_at p (\<lambda>ob. ob\<lparr>ob_props := AList.update k v (ob_props ob)\<rparr>)
                    (objects s)\<rparr>"

definition get_prop :: "bstate \<Rightarrow> ptr \<Rightarrow> string \<Rightarrow> string option" where
  "get_prop s p k = (case map_of (objects s) p of None \<Rightarrow> None | Some ob \<Rightarrow> map_of (ob_props ob) k)"

subsection \<open>The node tree of a material\<close>

text \<open>The sockets of the node types the compiler uses, as the host declares them: the
  inputs with their default values, and the outputs. A socket is addressed by name
  (the first of that name) or by position.\<close>

datatype sock = ByName string | ByIndex nat

fun default_inputs :: "node_type \<Rightarrow> (string \<times> sval) list" where
  "default_inputs ShaderNodeOutputMaterial =
     [(''Surface'', NoValue), (''Volume'', NoValue), (''Displacement'', VecV 0 0 0)]"
| "default_inputs ShaderNodeMixShader =
     [(''Fac'', FloatV (1 / 2)), (''Shader'', NoValue), (''Shader'', NoValue)]"
| "default_inputs ShaderNodeEmission = [(''Color'', ColV 1 1 1 1), (''Strength'', FloatV 1)]"
| "default_inputs ShaderNodeBsdfTransparent = [(''Color'', ColV 1 1 1 1)]"
| "default_inputs ShaderNodeValToRGB = [(''Fac'', FloatV (1 / 2))]"
| "default_inputs ShaderNodeSeparateXYZ = [(''Vector'', VecV 0 0 0)]"
| "default_inputs ShaderNodeTexCoord = []"
| "default_inputs ShaderNodeTexNoise =
     [(''Vector'', NoValue), (''W'', FloatV 0), (''Scale'', FloatV 5), (''Detail'', FloatV 2),
      (''Roughness'', FloatV (1 / 2)), (''Lacunarity'', FloatV 2), (''Distortion'', FloatV 0)]"
| "default_inputs ShaderNodeMapping =
     [(''Vector'', VecV 0 0 0), (''Location'', VecV 0 0 0), (''Rotation'', VecV 0 0 0),
      (''Scale'', VecV 1 1 1)]"
| "default_inputs ShaderNodeMath =
     [(''Value'', FloatV (1 / 2)), (''Value'', FloatV (1 / 2)), (''Value'', FloatV (1 / 2))]"

fun outputs_of :: "node_type \<Rightarrow> string list" where
  "outputs_of ShaderNodeOutputMaterial = []"
| "outputs_of ShaderNodeMixShader = [''Shader'']"
| "outputs_of ShaderNodeEmission = [''Emission'']"
| "outputs_of ShaderNodeBsdfTransparent = [''BSDF'']"
| "outputs_of ShaderNodeValToRGB = [''Color'', ''Alpha'']"
| "outputs_of ShaderNodeSeparateXYZ = [''X'', ''Y'', ''Z'']"
| "outputs_of ShaderNodeTexCoord =
     [''Generated'', ''Normal'', ''UV'', ''Object'', ''Camera'', ''Window'', ''Reflection'']"
| "outputs_of ShaderNodeTexNoise = [''Fac'', ''Color'']"
| "outputs_of ShaderNodeMapping = [''Vector'']"
| "outputs_of ShaderNodeMath = [''Value'']"

fun default_label :: "node_type \<Rightarrow> string" where
  "default_label ShaderNodeOutputMaterial = ''Material Output''"
| "default_label ShaderNodeMixShader = ''Mix Shader''"
| "default_label ShaderNodeEmission = ''Emission''"
| "default_label ShaderNodeBsdfTransparent = ''Transparent BSDF''"
| "default_label ShaderNodeValToRGB = ''Color Ramp''"
| "default_label ShaderNodeSeparateXYZ = ''Separate XYZ''"
| "default_label ShaderNodeTexCoord = ''Texture Coordinate''"
| "default_label ShaderNodeTexNoise = ''Noise Texture''"
| "default_label ShaderNodeMapping = ''Mapping''"
| "default_label ShaderNodeMath = ''Math''"

fun index_of :: "string \<Rightarrow> string list \<Rightarrow> nat option" where
  "index_of n [] = None"
| "index_of n (x # xs) = (if x = n then Some 0 else map_option Suc (index_of n xs))"

definition find_socket :: "string list \<Rightarrow> sock \<Rightarrow> error + nat" where
  "find_socket ns k =
     (case k of
        ByName n \<Rightarrow> (case index_of n ns of None \<Rightarrow> Inl KeyError | Some i \<Rightarrow> Inr i)
      | ByIndex i \<Rightarrow> if i < length ns then Inr i else Inl IndexError)"

text \<open>Straight-line code is a list of steps; the first step that raises ends the run.\<close>

fun run_steps :: "('a \<Rightarrow> error + 'a) list \<Rightarrow> 'a \<Rightarrow> error + 'a" where
  "run_steps [] x = Inr x"
| "run_steps (f # fs) x = (case f x of Inl e \<Rightarrow> Inl e | Inr y \<Rightarrow> run_steps fs y)"

definition with_node :: "nat \<Rightarrow> (node \<Rightarrow> error + node) \<Rightarrow> material \<Rightarrow> error + material" where
  "with_node h f m =
     (if h < length (nodes m) then
        (case f (nodes m ! h) of
           Inl e \<Rightarrow> Inl e
         | Inr nd \<Rightarrow> Inr (m\<lparr>nodes := (nodes m)[h := nd]\<rparr>))
      else Inl ReferenceError)"

definition node_path :: "node \<Rightarrow> string" where
  \<open>node_path nd = ''nodes["'' @ nd_name nd @ ''"]''\<close>

text \<open>\<^verbatim>\<open>nodes.clear()\<close> removes every node, with it every link and every animation
  curve of a property of a removed node.\<close>

definition nodes_clear :: "material \<Rightarrow> error + material" where
  "nodes_clear m =
     Inr (m\<lparr>nodes := [], links := [],
            animation_data := map_option
              (filter (\<lambda>fc. \<not> list_ex (\<lambda>nd. prefix (node_path nd) (data_path fc)) (nodes m)))
              (animation_data m)\<rparr>)"

definition new_node :: "node_type \<Rightarrow> string list \<Rightarrow> node" where
  "new_node t taken =
     \<lparr>nd_name = unique_name (default_label t) taken, nd_type = t, nd_location = (0, 0),
      operation = (if t = ShaderNodeMath then ''ADD'' else []),
      inputs = default_inputs t,
      elements = (if t = ShaderNodeValToRGB then [(0, (0, 0, 0, 1)), (1, (1, 1, 1, 1))] else [])\<rparr>"

definition nodes_new :: "node_type \<Rightarrow> material \<Rightarrow> error + material" where
  "nodes_new t m = Inr (m\<lparr>nodes := nodes m @ [new_node t (map nd_name (nodes m))]\<rparr>)"

definition set_location :: "nat \<Rightarrow> int \<times> int \<Rightarrow> material \<Rightarrow> error + material" where
  "set_location h xy = with_node h (\<lambda>nd. Inr (nd\<lparr>nd_location := xy\<rparr>))"

definition set_operation :: "nat \<Rightarrow> string \<Rightarrow> material \<Rightarrow> error + material" where
  "set_operation h v = with_node h (\<lambda>nd. Inr (nd\<lparr>operation := v\<rparr>))"

text \<open>The stops of a colour ramp are kept sorted by position; a new stop takes the colour
  the ramp has at its position.\<close>

definition mix_rgba :: "real \<Rightarrow> rgba \<Rightarrow> rgba \<Rightarrow> rgba" where
  "mix_rgba f a b =
     (case a of (r1, g1, b1, a1) \<Rightarrow> case b of (r2, g2, b2, a2) \<Rightarrow>
        (r1 + f * (r2 - r1), g1 + f * (g2 - g1), b1 + f * (b2 - b1), a1 + f * (a2 - a1)))"

fun ramp_eval :: "(real \<times> rgba) list \<Rightarrow> real \<Rightarrow> rgba" where
  "ramp_eval [] x = (0, 0, 0, 1)"
| "ramp_eval [(p, c)] x = c"
| "ramp_eval ((p1, c1) # (p2, c2) # r) x =
     (if x \<le> p1 then c1
      else if x < p2 then mix_rgba ((x - p1) / (p2 - p1)) c1 c2
      else ramp_eval ((p2, c2) # r) x)"

definition set_element_color :: "nat \<Rightarrow> nat \<Rightarrow> rgba \<Rightarrow> material \<Rightarrow> error + material" where
  "set_element_color h i c =
     with_node h (\<lambda>nd. if i < length (elements nd)
        then Inr (nd\<lparr>elements := (elements nd)[i := (fst (elements nd ! i), c)]\<rparr>)
        else Inl IndexError)"

definition set_element_position :: "nat \<Rightarrow> nat \<Rightarrow> real \<Rightarrow> material \<Rightarrow> error + material" where
  "set_element_position h i x =
     with_node h (\<lambda>nd. if i < length (elements nd)
        then Inr (nd\<lparr>elements := sort_key fst ((elements nd)[i := (x, snd (elements nd ! i))])\<rparr>)
        else Inl IndexError)"

definition elements_new :: "nat \<Rightarrow> real \<Rightarrow> material \<Rightarrow> error + material" where
  "elements_new h x =
     with_node h (\<lambda>nd. Inr (nd\<lparr>elements :=
        sort_key fst (elements nd @ [(x, ramp_eval (elements nd) x)])\<rparr>))"

definition set_input :: "nat \<Rightarrow> sock \<Rightarrow> sval \<Rightarrow> material \<Rightarrow> error + material" where
  "set_input h k v =
     with_node h (\<lambda>nd. case find_socket (map fst (inputs nd)) k of
        Inl e \<Rightarrow> Inl e
      | Inr i \<Rightarrow> Inr (nd\<lparr>inputs := (inputs nd)[i := (fst (inputs nd ! i), v)]\<rparr>))"

definition set_component :: "nat \<Rightarrow> real \<Rightarrow> sval \<Rightarrow> error + sval" where
  "set_component i x v =
     (case v of
        VecV a b c \<Rightarrow>
          if i = 0 then Inr (VecV x b c) else if i = 1 then Inr (VecV a x c)
          else if i = 2 then Inr (VecV a b x) else Inl IndexError
      | ColV a b c d \<Rightarrow>
          if i = 0 then Inr (ColV x b c d) else if i = 1 then Inr (ColV a x c d)
          else if i = 2 then Inr (ColV a b x d) else if i = 3 then Inr (ColV a b c x)
          else Inl IndexError
      | FloatV a \<Rightarrow> Inl TypeError
      | NoValue \<Rightarrow> Inl AttributeError)"

definition set_input_component :: "nat \<Rightarrow> sock \<Rightarrow> nat \<Rightarrow> real \<Rightarrow> material \<Rightarrow> error + material" where
  "set_input_component h k i x =
     with_node h (\<lambda>nd. case find_socket (map fst (inputs nd)) k of
        Inl e \<Rightarrow> Inl e
      | Inr j \<Rightarrow>
         (case set_component i x (snd (inputs nd ! j)) of
            Inl e \<Rightarrow> Inl e
          | Inr v \<Rightarrow> Inr (nd\<lparr>inputs := (inputs nd)[j := (fst (inputs nd ! j), v)]\<rparr>)))"

text \<open>\<^verbatim>\<open>links.new(a.outputs[o], b.inputs[i])\<close>: an input holds one link, so a link
  already ending there is replaced.\<close>

definition links_new :: "nat \<times> sock \<Rightarrow> nat \<times> sock \<Rightarrow> material \<Rightarrow> error + material" where
  "links_new src dst m =
     (case src of (a, ko) \<Rightarrow> case dst of (b, ki) \<Rightarrow>
        if a < length (nodes m) \<and> b < length (nodes m) then
          (case find_socket (outputs_of (nd_type (nodes m ! a))) ko of
             Inl e \<Rightarrow> Inl e
           | Inr so \<Rightarrow>
              (case find_socket (map fst (inputs (nodes m ! b))) ki of
                 Inl e \<Rightarrow> Inl e
               | Inr si \<Rightarrow>
                  Inr (m\<lparr>links := filter (\<lambda>l. \<not> (to_node l = b \<and> to_socket l = si)) (links m) @
                         [\<lparr>from_node = a, from_socket = so, to_node = b, to_socket = si\<rparr>]\<rparr>)))
        else Inl ReferenceError)"

subsection \<open>Keyframes\<close>

text \<open>\<^verbatim>\<open>socket.keyframe_insert(data_path='default_value', frame=f)\<close> keys every
  component of the value. The animation curve of a component is found by the path of the
  property from the node tree and the index of the component, and created when missing
  (with it the animation data of the tree). A new key takes the interpolation of the
  user preferences; a key at the same frame keeps its interpolation and takes the value.\<close>

definition components :: "sval \<Rightarrow> real list" where
  "components v =
     (case v of NoValue \<Rightarrow> [] | FloatV a \<Rightarrow> [a] | VecV a b c \<Rightarrow> [a, b, c]
      | ColV a b c d \<Rightarrow> [a, b, c, d])"

definition insert_key :: "interp \<Rightarrow> int \<Rightarrow> real \<Rightarrow> keyframe list \<Rightarrow> keyframe list" where
  "insert_key ipo f v ks =
     (if list_ex (\<lambda>k. kf_frame k = f) ks
      then map (\<lambda>k. if kf_frame k = f then k\<lparr>kf_value := v\<rparr> else k) ks
      else filter (\<lambda>k. kf_frame k < f) ks @
           [\<lparr>kf_frame = f, kf_value = v, interpolation = ipo\<rparr>] @
           filter (\<lambda>k. f < kf_frame k) ks)"

definition key_fcurve :: "interp \<Rightarrow> string \<Rightarrow> int \<Rightarrow> fcurve list \<Rightarrow> nat \<times> real \<Rightarrow> fcurve list" where
  "key_fcurve ipo path f fcs iv =
     (case iv of (i, v) \<Rightarrow>
        if list_ex (\<lambda>fc. data_path fc = path \<and> array_index fc = i) fcs
        then map (\<lambda>fc. if data_path fc = path \<and> array_index fc = i
                        then fc\<lparr>keyframe_points := insert_key ipo f v (keyframe_points fc)\<rparr>
                        else fc) fcs
        else fcs @ [\<lparr>data_path = path, array_index = i,
                     keyframe_points = insert_key ipo f v [], fc_modifiers = []\<rparr>])"

definition keyframe_insert :: "interp \<Rightarrow> nat \<Rightarrow> sock \<Rightarrow> string \<Rightarrow> int \<Rightarrow> material \<Rightarrow> error + material" where
  "keyframe_insert ipo h k prop f m =
     (if h < length (nodes m) then
        (let nd = nodes m ! h in
         case find_socket (map fst (inputs nd)) k of
           Inl e \<Rightarrow> Inl e
         | Inr i \<Rightarrow>
            (let path = node_path nd @ ''.inputs['' @ digits i @ ''].'' @ prop;
                 vs = components (snd (inputs nd ! i));
                 fcs = (case animation_data m of None \<Rightarrow> [] | Some fcs \<Rightarrow> fcs)
             in if vs = [] then Inl TypeError
                else Inr (m\<lparr>animation_data :=
                            Some (foldl (key_fcurve ipo path f) fcs (zip [0..<length vs] vs))\<rparr>)))
      else Inl ReferenceError)"

definition endswith :: "string \<Rightarrow> string \<Rightarrow> bool" where
  "endswith s suf = suffix suf s"

text \<open>Lines 354 to 359: the loop over the animation curves of the tree.\<close>

definition linear_and_cycles :: "material \<Rightarrow> error + material" where
  \<open>linear_and_cycles m =
     (case animation_data m of
        None \<Rightarrow> Inr m
      | Some fcs \<Rightarrow>
         Inr (m\<lparr>animation_data := Some (map
           (\<lambda>fc. if endswith (data_path fc) ''['Location']''
                 then fc\<lparr>keyframe_points :=
                            map (\<lambda>k. k\<lparr>interpolation := LINEAR\<rparr>) (keyframe_points fc),
                         fc_modifiers := fc_modifiers fc @ [''CYCLES'']\<rparr>
                 else fc) fcs)\<rparr>))\<close>

subsection \<open>\<^verbatim>\<open>execute\<close>, section by section\<close>

text \<open>The nodes are created in this order; a Python variable of the source is the
  position of its node in the tree.\<close>

definition output_node :: nat where "output_node = 0"
definition mix_shader :: nat where "mix_shader = 1"
definition emission :: nat where "emission = 2"
definition transparent :: nat where "transparent = 3"
definition color_ramp_main :: nat where "color_ramp_main = 4"
definition separate_xyz :: nat where "separate_xyz = 5"
definition tex_coord :: nat where "tex_coord = 6"
definition noise_tex :: nat where "noise_tex = 7"
definition mapping_anim :: nat where "mapping_anim = 8"
definition mapping_stretch :: nat where "mapping_stretch = 9"
definition emission_falloff_ramp :: nat where "emission_falloff_ramp = 10"
definition multiply_emission :: nat where "multiply_emission = 11"
definition vertical_fade_ramp :: nat where "vertical_fade_ramp = 12"
definition combine_fade_and_noise :: nat where "combine_fade_and_noise = 13"

definition create_nodes :: "(material \<Rightarrow> error + material) list" where
  "create_nodes =
     [nodes_new ShaderNodeOutputMaterial,
      nodes_new ShaderNodeMixShader,
      nodes_new ShaderNodeEmission,
      nodes_new ShaderNodeBsdfTransparent,
      nodes_new ShaderNodeValToRGB,
      nodes_new ShaderNodeSeparateXYZ,
      nodes_new ShaderNodeTexCoord,
      nodes_new ShaderNodeTexNoise,
      nodes_new ShaderNodeMapping,
      nodes_new ShaderNodeMapping,
      nodes_new ShaderNodeValToRGB,
      nodes_new ShaderNodeMath,
      set_operation multiply_emission ''MULTIPLY'',
      nodes_new ShaderNodeValToRGB,
      nodes_new ShaderNodeMath,
      set_operation combine_fade_and_noise ''MAXIMUM'',
      set_location output_node (600, 0),
      set_location mix_shader (400, 0),
      set_location transparent (200, -200),
      set_location emission (200, 100),
      set_location multiply_emission (0, 200),
      set_location emission_falloff_ramp (-200, 200),
      set_location color_ramp_main (-200, 100),
      set_location separate_xyz (-400, 100),
      set_location tex_coord (-600, 100),
      set_location combine_fade_and_noise (200, -50),
      set_location vertical_fade_ramp (0, 0),
      set_location noise_tex (0, -200),
      set_location mapping_stretch (-200, -200),
      set_location mapping_anim (-400, -200)]"

definition configure_nodes :: "aurora_props \<Rightarrow> (material \<Rightarrow> error + material) list" where
  "configure_nodes props =
     [set_element_color color_ramp_main 0 (color1 props),
      set_element_color color_ramp_main 1 (color2 props),
      set_element_position emission_falloff_ramp 0 0,
      set_element_color emission_falloff_ramp 0 (1, 1, 1, 1),
      set_element_position emission_falloff_ramp 1 1,
      set_element_color emission_falloff_ramp 1 (0, 0, 0, 1),
      set_input multiply_emission (ByIndex 1) (FloatV (emission_strength props)),
      set_element_position vertical_fade_ramp 0 0,
      set_element_color vertical_fade_ramp 0 (1, 1, 1, 1),
      elements_new vertical_fade_ramp (3 / 10),
      set_element_color vertical_fade_ramp 1 (0, 0, 0, 1),
      set_element_position vertical_fade_ramp 2 1,
      set_element_color vertical_fade_ramp 2 (0, 0, 0, 1),
      set_input_component mapping_stretch (ByName ''Scale'') 0 (2 / 10),
      set_input_component mapping_stretch (ByName ''Scale'') 1 10,
      set_input noise_tex (ByName ''Scale'') (FloatV (noise_scale props)),
      set_input noise_tex (ByName ''Detail'') (FloatV 5),
      set_input noise_tex (ByName ''Roughness'') (FloatV (6 / 10)),
      set_input noise_tex (ByName ''Distortion'') (FloatV (noise_distortion props))]"

definition link_nodes :: "(material \<Rightarrow> error + material) list" where
  "link_nodes =
     [links_new (tex_coord, ByName ''Generated'') (separate_xyz, ByName ''Vector''),
      links_new (separate_xyz, ByName ''Y'') (color_ramp_main, ByName ''Fac''),
      links_new (color_ramp_main, ByName ''Color'') (emission, ByName ''Color''),
      links_new (separate_xyz, ByName ''Y'') (emission_falloff_ramp, ByName ''Fac''),
      links_new (emission_falloff_ramp, ByName ''Color'') (multiply_emission, ByIndex 0),
      links_new (multiply_emission, ByName ''Value'') (emission, ByName ''Strength''),
      links_new (tex_coord, ByName ''Generated'') (mapping_anim, ByName ''Vector''),
      links_new (mapping_anim, ByName ''Vector'') (mapping_stretch, ByName ''Vector''),
      links_new (mapping_stretch, ByName ''Vector'') (noise_tex, ByName ''Vector''),
      links_new (separate_xyz, ByName ''Y'') (vertical_fade_ramp, ByName ''Fac''),
      links_new (vertical_fade_ramp, ByName ''Color'') (combine_fade_and_noise, ByIndex 0),
      links_new (noise_tex, ByName ''Fac'') (combine_fade_and_noise, ByIndex 1),
      links_new (combine_fade_and_noise, ByName ''Value'') (mix_shader, ByName ''Fac''),
      links_new (emission, ByName ''Emission'') (mix_shader, ByIndex 1),
      links_new (transparent, ByName ''BSDF'') (mix_shader, ByIndex 2),
      links_new (mix_shader, ByName ''Shader'') (output_node, ByName ''Surface'')]"

definition add_animation :: "aurora_props \<Rightarrow> interp \<Rightarrow> (material \<Rightarrow> error + material) list" where
  "add_animation props ipo =
     (if animate props then
        [keyframe_insert ipo mapping_anim (ByName ''Location'') ''default_value'' 1,
         set_input_component mapping_anim (ByName ''Location'') 1 5,
         keyframe_insert ipo mapping_anim (ByName ''Location'') ''default_value'' 250,
         linear_and_cycles]
      else [])"

definition build_node_tree :: "aurora_props \<Rightarrow> interp \<Rightarrow> material \<Rightarrow> error + material" where
  "build_node_tree props ipo mat =
     run_steps ([nodes_clear] @ create_nodes @ configure_nodes props @ link_nodes @
                add_animation props ipo)
       (mat\<lparr>use_nodes := True, blend_method := ''BLEND''\<rparr>)"

definition pre_creation_cleanup :: "ptr \<Rightarrow> bstate \<Rightarrow> (error \<times> bstate) + bstate" where
  "pre_creation_cleanup curve_object s =
     (case (case get_prop s curve_object ''aurora_object_name'' of
              None \<Rightarrow> Inr s
            | Some old_aurora_name \<Rightarrow>
               (case get_by_name ob_name (objects s) old_aurora_name of
                  None \<Rightarrow> Inr s
                | Some (old_aurora, old) \<Rightarrow>
                   (let old_mesh = ob_data old; s = objects_remove old_aurora s in
                    case old_mesh of
                      None \<Rightarrow> Inr s
                    | Some m \<Rightarrow>
                       if data_users s (ob_type old) m = 0
                       then (if ob_type old = MESH then Inr (meshes_remove m s)
                             else Inl (TypeError, s))
                       else Inr s))) of
        Inl e \<Rightarrow> Inl e
      | Inr s \<Rightarrow>
         (if curve_object \<notin> fst ` set (objects s) then Inl (ReferenceError, s)
          else
            (case get_prop s curve_object ''aurora_texture_name'' of
               None \<Rightarrow> Inr s
             | Some old_tex_name \<Rightarrow>
                (case get_by_name tx_name (textures s) old_tex_name of
                   None \<Rightarrow> Inr s
                 | Some (old_tex, tx) \<Rightarrow>
                    if texture_users s old_tex = 0 then Inr (textures_remove old_tex s)
                    else Inr s))))"

definition create_base_mesh :: "aurora_props \<Rightarrow> bstate \<Rightarrow> (error \<times> bstate) + (ptr \<times> bstate)" where
  "create_base_mesh props s =
     (let s = primitive_plane_add True s in
      case active_object s of
        None \<Rightarrow> Inl (AttributeError, s)
      | Some aurora_object \<Rightarrow>
         (let s = rename_object aurora_object ''Aurora'' s;
              s = transform_resize (20, 1, 1) s;
              s = transform_resize (1, aurora_height props / 2, 1) s;
              s = mesh_subdivide (subdivisions props) 0 s;
              s = mode_set_OBJECT s;
              s = s\<lparr>objects := update_at aurora_object
                     (\<lambda>ob. ob\<lparr>rotation_euler_x := 15708 / 10000\<rparr>) (objects s)\<rparr>;
              s = transform_apply False True False s
          in Inr (aurora_object, s)))"

definition add_modifiers :: "ptr \<Rightarrow> ptr \<Rightarrow> bstate \<Rightarrow> ptr \<times> bstate" where
  "add_modifiers curve_object aurora_object s =
     (let curve_mod = modifiers_new ''FollowCurve'' ''CURVE'';
          curve_mod = curve_mod\<lparr>md_object := Some curve_object\<rparr>;
          disp_mod = modifiers_new ''Displacement'' ''DISPLACE'';
          (disp_texture, s) = textures_new ''AuroraDisplaceTexture'' ''CLOUDS'' s;
          s = s\<lparr>textures := update_at disp_texture (\<lambda>t. t\<lparr>noise_scale_tx := 1 / 2\<rparr>)
                               (textures s)\<rparr>;
          disp_mod = disp_mod\<lparr>md_texture := Some disp_texture, md_strength := 7 / 10,
                              md_direction := ''Z''\<rparr>;
          s = s\<lparr>objects := update_at aurora_object
                 (\<lambda>ob. ob\<lparr>modifiers := modifiers ob @ [curve_mod, disp_mod]\<rparr>) (objects s)\<rparr>
      in (disp_texture, s))"

definition create_or_update_material :: "ptr \<Rightarrow> bstate \<Rightarrow> ptr \<times> bstate" where
  "create_or_update_material curve_object s =
     (let mat = (case get_prop s curve_object ''aurora_material_name'' of
                   None \<Rightarrow> None
                 | Some old_mat_name \<Rightarrow>
                     map_option fst (get_by_name ma_name (materials s) old_mat_name))
      in case mat of
           Some mat \<Rightarrow> (mat, s)
         | None \<Rightarrow>
            (let (mat, s) = materials_new ''Aurora_Material'' s;
                 s = (case map_of (materials s) mat of
                        None \<Rightarrow> s
                      | Some ma \<Rightarrow> set_prop curve_object ''aurora_material_name'' (ma_name ma) s)
             in (mat, s)))"

definition update_node_tree :: "aurora_props \<Rightarrow> ptr \<Rightarrow> bstate \<Rightarrow> (error \<times> bstate) + bstate" where
  "update_node_tree props mat s =
     (case map_of (materials s) mat of
        None \<Rightarrow> Inl (ReferenceError, s)
      | Some ma \<Rightarrow>
         (case build_node_tree props (keyframe_interpolation s) ma of
            Inl e \<Rightarrow> Inl (e, s)
          | Inr ma' \<Rightarrow> Inr (s\<lparr>materials := update_at mat (\<lambda>x. ma') (materials s)\<rparr>)))"

definition finalize :: "ptr \<Rightarrow> ptr \<Rightarrow> ptr \<Rightarrow> ptr \<Rightarrow> bstate \<Rightarrow> (error \<times> bstate) + bstate" where
  "finalize curve_object aurora_object disp_texture mat s =
     (case map_of (objects s) aurora_object of
        None \<Rightarrow> Inl (ReferenceError, s)
      | Some aob \<Rightarrow>
         (case ob_data aob of
            None \<Rightarrow> Inl (AttributeError, s)
          | Some me \<Rightarrow>
             (let s = s\<lparr>meshes := update_at me
                         (\<lambda>x. x\<lparr>me_materials := me_materials x @ [mat]\<rparr>) (meshes s)\<rparr>
              in case map_of (textures s) disp_texture of
                   None \<Rightarrow> Inl (ReferenceError, s)
                 | Some tx \<Rightarrow>
                    (let s = set_prop curve_object ''aurora_object_name'' (ob_name aob) s;
                         s = set_prop curve_object ''aurora_texture_name'' (tx_name tx) s;
                         s = select_set curve_object False s;
                         s = select_set aurora_object True s;
                         s = s\<lparr>active_object := Some aurora_object\<rparr>
                     in Inr (report ''INFO'' ''Aurora created/updated successfully!'' s)))))"

definition execute :: "aurora_props \<Rightarrow> bstate \<Rightarrow> (error \<times> bstate) + bstate" where
  "execute props s =
     (case active_object s of
        None \<Rightarrow> Inl (AttributeError, s)
      | Some curve_object \<Rightarrow>
         (case pre_creation_cleanup curve_object s of
            Inl e \<Rightarrow> Inl e
          | Inr s \<Rightarrow>
             (case create_base_mesh props s of
                Inl e \<Rightarrow> Inl e
              | Inr (aurora_object, s) \<Rightarrow>
                 (let (disp_texture, s) = add_modifiers curve_object aurora_object s;
                      (mat, s) = create_or_update_material curve_object s
                  in case update_node_tree props mat s of
                       Inl e \<Rightarrow> Inl e
                     | Inr s \<Rightarrow> finalize curve_object aurora_object disp_texture mat s))))"

text \<open>The host runs \<^verbatim>\<open>execute\<close> only when \<^verbatim>\<open>poll\<close> holds; otherwise the call
  fails and nothing has run.\<close>

definition create_aurora :: "aurora_props \<Rightarrow> bstate \<Rightarrow> (error + status) \<times> bstate" where
  "create_aurora props s =
     (if poll s then
        (case execute props s of
           Inl (e, s') \<Rightarrow> (Inl e, s')
         | Inr s' \<Rightarrow> (Inr FINISHED, s'))
      else (Inl PollFailed, s))"

section \<open>Sessions and well-formed states\<close>

definition ref_ok :: "bstate \<Rightarrow> ptr option \<Rightarrow> bool" where
  "ref_ok s r = (case r of None \<Rightarrow> True | Some p \<Rightarrow> p < next_ptr s)"

definition valid_refs :: "bstate \<Rightarrow> bool" where
  "valid_refs s =
     (list_all (\<lambda>(p, ob). p < next_ptr s \<and> ref_ok s (ob_data ob) \<and>
                 list_all (\<lambda>m. ref_ok s (md_object m) \<and> ref_ok s (md_texture m)) (modifiers ob))
        (objects s) \<and>
      list_all (\<lambda>(p, c). p < next_ptr s) (curves s) \<and>
      list_all (\<lambda>(p, m). p < next_ptr s) (meshes s) \<and>
      list_all (\<lambda>(p, t). p < next_ptr s) (textures s) \<and>
      list_all (\<lambda>(p, m). p < next_ptr s) (materials s) \<and>
      list_all (\<lambda>p. p < next_ptr s) (collection s) \<and>
      list_all (\<lambda>h. h < next_ptr s) (draw_handlers s) \<and>
      distinct (map fst (objects s)) \<and> distinct (map fst (meshes s)) \<and>
      distinct (map fst (textures s)) \<and> distinct (map fst (materials s)))"

definition capturing :: "bstate \<Rightarrow> draw_path \<Rightarrow> bstate \<Rightarrow> bool" where
  "capturing s1 self s \<longleftrightarrow>
     next_ptr s1 \<le> next_ptr s \<and> draw_handlers s = draw_handlers s1 \<and>
     region_2d_to_origin_3d s = region_2d_to_origin_3d s1 \<and>
     region_2d_to_vector_3d s = region_2d_to_vector_3d s1 \<and>
     (\<forall>p \<in> fst ` set (curves s). p < next_ptr s) \<and>
     (case curve_ob self of
        None \<Rightarrow> objects s = objects s1 \<and> collection s = collection s1
      | Some p \<Rightarrow>
          (\<exists>ob d c. next_ptr s1 \<le> p \<and> objects s = objects s1 @ [(p, ob)] \<and> modifiers ob = [] \<and>
             ob_type ob = CURVE \<and> ob_data ob = Some d \<and> map_of (curves s) d = Some c \<and>
             splines c \<noteq> [] \<and> collection s = collection s1 @ [p]))"

definition draw_path_session :: "draw_path \<Rightarrow> bstate \<Rightarrow> event list \<Rightarrow> error + (status \<times> draw_path \<times> bstate)" where
  "draw_path_session self s evs =
     (case invoke self s of
        (st, self', s') \<Rightarrow> if st = RUNNING_MODAL then run_modal evs self' s' else Inr (st, self', s'))"

definition no_point :: "bstate \<Rightarrow> event \<Rightarrow> bool" where
  "no_point s ev =
     (ev_type ev \<notin> {''RIGHTMOUSE'', ''RET'', ''ESC''} \<and>
      (if ev_type ev = ''LEFTMOUSE'' \<and> ev_value ev = ''PRESS''
       then click_location (region_2d_to_origin_3d s (mouse_region_x ev, mouse_region_y ev))
              (region_2d_to_vector_3d s (mouse_region_x ev, mouse_region_y ev)) = None
       else True))"

definition non_terminal :: "event \<Rightarrow> bool" where
  "non_terminal ev = (ev_type ev \<notin> {''RIGHTMOUSE'', ''RET'', ''ESC''})"

section \<open>Concrete scenes and inputs\<close>

text \<open>An empty scene seen from above (the rays of all pixels point down from height 10),
  the same scene seen from the side (the rays are parallel to the ground), and the events
  of a session.\<close>

definition new_scene :: bstate where
  "new_scene =
     \<lparr>objects = [], curves = [], meshes = [], textures = [], materials = [], collection = [],
      next_ptr = 0, active_object = None, edit_mode = False, space_type = ''VIEW_3D'',
      region_2d_to_origin_3d = (\<lambda>(x, y). (real_of_int x, real_of_int y, 10)),
      region_2d_to_vector_3d = (\<lambda>(x, y). (0, 0, - 1)),
      draw_handlers = [], modal_handlers = 0, cursor = ''DEFAULT'', redraws = 0, reports = [],
      keyframe_interpolation = BEZIER\<rparr>"

definition side_view :: bstate where
  "side_view = new_scene\<lparr>region_2d_to_vector_3d := (\<lambda>c. (1, 0, 0))\<rparr>"

definition click :: "int \<Rightarrow> int \<Rightarrow> event" where
  "click x y =
     \<lparr>ev_type = ''LEFTMOUSE'', ev_value = ''PRESS'', mouse_region_x = x, mouse_region_y = y\<rparr>"

definition key :: "string \<Rightarrow> event" where
  "key k = \<lparr>ev_type = k, ev_value = ''PRESS'', mouse_region_x = 0, mouse_region_y = 0\<rparr>"

definition new_self :: draw_path where
  "new_self = \<lparr>points = [], curve_ob = None, handle = 0\<rparr>"

section \<open>Notions used to state the properties of the compiler\<close>




text \<open>The types of the nodes in creation order, the links in the order of section 4 of
  \<^verbatim>\<open>execute\<close> with their sockets as positions, and the length of the longest path
  from a node to the output node.\<close>

definition node_types :: "node_type list" where
  "node_types =
     [ShaderNodeOutputMaterial, ShaderNodeMixShader, ShaderNodeEmission,
      ShaderNodeBsdfTransparent, ShaderNodeValToRGB, ShaderNodeSeparateXYZ,
      ShaderNodeTexCoord, ShaderNodeTexNoise, ShaderNodeMapping, ShaderNodeMapping,
      ShaderNodeValToRGB, ShaderNodeMath, ShaderNodeValToRGB, ShaderNodeMath]"

definition mk_link :: "nat \<Rightarrow> nat \<Rightarrow> nat \<Rightarrow> nat \<Rightarrow> link" where
  "mk_link a so b si = \<lparr>from_node = a, from_socket = so, to_node = b, to_socket = si\<rparr>"

definition graph_links :: "link list" where
  "graph_links =
     [mk_link tex_coord 0 separate_xyz 0,
      mk_link separate_xyz 1 color_ramp_main 0,
      mk_link color_ramp_main 0 emission 0,
      mk_link separate_xyz 1 emission_falloff_ramp 0,
      mk_link emission_falloff_ramp 0 multiply_emission 0,
      mk_link multiply_emission 0 emission 1,
      mk_link tex_coord 0 mapping_anim 0,
      mk_link mapping_anim 0 mapping_stretch 0,
      mk_link mapping_stretch 0 noise_tex 0,
      mk_link separate_xyz 1 vertical_fade_ramp 0,
      mk_link vertical_fade_ramp 0 combine_fade_and_noise 0,
      mk_link noise_tex 0 combine_fade_and_noise 1,
      mk_link combine_fade_and_noise 0 mix_shader 0,
      mk_link emission 0 mix_shader 1,
      mk_link transparent 0 mix_shader 2,
      mk_link mix_shader 0 output_node 0]"


text \<open>The animation curves that survive \<^verbatim>\<open>nodes.clear()\<close>.\<close>

definition cleared :: "material \<Rightarrow> fcurve list option" where
  "cleared m = map_option
     (filter (\<lambda>fc. \<not> list_ex (\<lambda>nd. prefix (node_path nd) (data_path fc)) (nodes m)))
     (animation_data m)"

text \<open>What \<^verbatim>\<open>execute\<close> does after the cleanup, and the data-blocks it makes: the
  object, the mesh, the texture and the two modifiers.\<close>

definition rebuild :: "aurora_props \<Rightarrow> ptr \<Rightarrow> bstate \<Rightarrow> (error \<times> bstate) + bstate" where
  "rebuild props curve_object s =
     (case create_base_mesh props s of
        Inl e \<Rightarrow> Inl e
      | Inr (aurora_object, s) \<Rightarrow>
         (let (disp_texture, s) = add_modifiers curve_object aurora_object s;
              (mat, s) = create_or_update_material curve_object s
          in case update_node_tree props mat s of
               Inl e \<Rightarrow> Inl e
             | Inr s \<Rightarrow> finalize curve_object aurora_object disp_texture mat s))"

definition follow_curve :: "ptr \<Rightarrow> modifier" where
  "follow_curve c = \<lparr>md_name = ''FollowCurve'', md_type = ''CURVE'', md_object = Some c,
     md_texture = None, md_strength = 1, md_direction = ''NORMAL''\<rparr>"

definition displacement :: "ptr \<Rightarrow> modifier" where
  "displacement t = \<lparr>md_name = ''Displacement'', md_type = ''DISPLACE'', md_object = None,
     md_texture = Some t, md_strength = 7 / 10, md_direction = ''Z''\<rparr>"

definition plane_object :: "bstate \<Rightarrow> object" where
  "plane_object s =
     \<lparr>ob_name = unique_name ''Aurora'' (names ob_name (objects s)), ob_type = MESH,
      ob_data = Some (next_ptr s), ob_props = [], modifiers = [], ob_scale = (1, 1, 1),
      rotation_euler_x = 0, ob_select = True\<rparr>"

definition plane_mesh :: "aurora_props \<Rightarrow> bstate \<Rightarrow> mesh" where
  "plane_mesh props s =
     \<lparr>me_name = unique_name ''Plane'' (names me_name (meshes s)),
      me_dim_x = 40, me_dim_y = \<bar>aurora_height props / 2\<bar> * 2,
      me_subdivide = [(subdivisions props, 0)], me_rot_x = 15708 / 10000,
      me_materials = [], me_other_users = 0\<rparr>"

definition aurora_texture :: "bstate \<Rightarrow> texture" where
  "aurora_texture s =
     \<lparr>tx_name = unique_name ''AuroraDisplaceTexture'' (names tx_name (textures s)),
      tx_type = ''CLOUDS'', noise_scale_tx = 1 / 2, tx_other_users = 0\<rparr>"

text \<open>The part of an object that selection and custom properties do not change.\<close>

definition skeleton :: "(ptr \<times> object) list \<Rightarrow> (ptr \<times> string \<times> ob_kind \<times> ptr option \<times> modifier list) list" where
  "skeleton xs = map (\<lambda>(q, ob). (q, ob_name ob, ob_type ob, ob_data ob, modifiers ob)) xs"

text \<open>The default parameter set, and a scene that holds one curve object (three control
  points, as \<^verbatim>\<open>CURVE_OT_DrawPath\<close> leaves it), selected and active.\<close>

definition default_props :: aurora_props where
  "default_props =
     \<lparr>aurora_height = 5, subdivisions = 128, color1 = (1 / 10, 1, 7 / 10, 1),
      color2 = (3 / 10, 2 / 10, 8 / 10, 1), emission_strength = 25, noise_scale = 15 / 10,
      noise_distortion = 5 / 10, animate = True\<rparr>"

definition auto_point :: "vec3 \<Rightarrow> bezier_point" where
  "auto_point v = \<lparr>co = v, handle_left_type = AUTO, handle_right_type = AUTO\<rparr>"

definition curve_scene :: bstate where
  "curve_scene =
     new_scene\<lparr>
       objects := [(2, \<lparr>ob_name = ''AuroraCurve'', ob_type = CURVE, ob_data = Some 1,
                        ob_props = [], modifiers = [], ob_scale = (1, 1, 1),
                        rotation_euler_x = 0, ob_select = True\<rparr>)],
       curves := [(1, \<lparr>cu_name = ''AuroraPath'', dimensions = ''3D'',
                       splines = [\<lparr>spline_type = ''BEZIER'',
                                   bezier_points = [auto_point (0, 0, 0), auto_point (5, 0, 0),
                                                    auto_point (10, 0, 0)]\<rparr>]\<rparr>)],
       collection := [2], next_ptr := 3, active_object := Some 2\<rparr>"

text \<open>The path of the \<open>Location\<close> input of the node \<open>Mapping\<close> from the node tree,
  and what section 5 of \<^verbatim>\<open>execute\<close> makes of the animation curves of the tree: keys
  at frames 1 and 250 on the three components, then the loop over the curves.\<close>

definition location_path :: string where
  \<open>location_path = ''nodes["Mapping"].inputs[1].default_value''\<close>

definition linear_cycles_curve :: "fcurve \<Rightarrow> fcurve" where
  \<open>linear_cycles_curve fc =
     (if endswith (data_path fc) ''['Location']''
      then fc\<lparr>keyframe_points := map (\<lambda>k. k\<lparr>interpolation := LINEAR\<rparr>) (keyframe_points fc),
              fc_modifiers := fc_modifiers fc @ [''CYCLES'']\<rparr>
      else fc)\<close>

definition animation_curves :: "interp \<Rightarrow> fcurve list \<Rightarrow> fcurve list" where
  "animation_curves ipo fcs =
     map linear_cycles_curve
       (foldl (key_fcurve ipo location_path 250)
          (foldl (key_fcurve ipo location_path 1) fcs [(0, 0), (1, 0), (2, 0)])
          [(0, 0), (1, 5), (2, 0)])"

definition mk_key :: "int \<Rightarrow> real \<Rightarrow> interp \<Rightarrow> keyframe" where
  "mk_key f v ipo = \<lparr>kf_frame = f, kf_value = v, interpolation = ipo\<rparr>"

text \<open>The node tree that \<^verbatim>\<open>build_node_tree\<close> returns.\<close>

definition node_tree_of :: "aurora_props \<Rightarrow> interp \<Rightarrow> material \<Rightarrow> material" where
  "node_tree_of props ipo mat =
     (case build_node_tree props ipo mat of Inr m \<Rightarrow> m | Inl e \<Rightarrow> mat)"


text \<open>The scene after sections 1 and 2 of \<^verbatim>\<open>execute\<close> (the new mesh, the new object
  with its two modifiers, the new texture), the material that the tag of the curve names,
  and the material that section 3 makes when there is none.\<close>

definition scaffold :: "aurora_props \<Rightarrow> ptr \<Rightarrow> bstate \<Rightarrow> bstate" where
  "scaffold props c s =
     s\<lparr>objects := map (\<lambda>(q, ob). (q, ob\<lparr>ob_select := False\<rparr>)) (objects s) @
                   [(Suc (next_ptr s),
                     (plane_object s)\<lparr>modifiers :=
                        [follow_curve c, displacement (Suc (Suc (next_ptr s)))]\<rparr>)],
       meshes := meshes s @ [(next_ptr s, plane_mesh props s)],
       textures := textures s @ [(Suc (Suc (next_ptr s)), aurora_texture s)],
       collection := collection s @ [Suc (next_ptr s)],
       next_ptr := Suc (Suc (Suc (next_ptr s))),
       active_object := Some (Suc (next_ptr s)),
       edit_mode := False\<rparr>"

definition old_material :: "bstate \<Rightarrow> ptr \<Rightarrow> (ptr \<times> material) option" where
  "old_material s c =
     (case get_prop s c ''aurora_material_name'' of
        None \<Rightarrow> None
      | Some old_mat_name \<Rightarrow> get_by_name ma_name (materials s) old_mat_name)"

definition aurora_material :: "bstate \<Rightarrow> material" where
  "aurora_material s =
     \<lparr>ma_name = unique_name ''Aurora_Material'' (names ma_name (materials s)),
      use_nodes = False, blend_method = ''OPAQUE'', nodes = [], links = [],
      animation_data = None\<rparr>"

text \<open>A scene whose active object is a mesh.\<close>

definition mesh_scene :: bstate where
  "mesh_scene =
     curve_scene\<lparr>objects := [(2, \<lparr>ob_name = ''Cube'', ob_type = MESH, ob_data = Some 1,
                        ob_props = [], modifiers = [], ob_scale = (1, 1, 1),
                        rotation_euler_x = 0, ob_select = True\<rparr>)],
                 curves := [],
                 meshes := [(1, \<lparr>me_name = ''Cube'', me_dim_x = 2, me_dim_y = 2, me_subdivide = [],
                                 me_rot_x = 0, me_materials = [], me_other_users = 0\<rparr>)]\<rparr>"

section \<open>Properties\<close>

subsection \<open>Unique names are fresh\<close>

lemma undec_append: "undec (xs @ [c]) = 10 * undec xs + (of_char c - 48)"
  by (simp add: undec_def)

lemma of_char_digit: "d < 10 \<Longrightarrow> of_char (digit_char d) - 48 = d"
  by (simp add: digit_char_def)

lemma undec_digits: "undec (digits n) = n"
proof (induction n rule: digits.induct)
  case (1 n)
  show ?case
  proof (cases "n < 10")
    case True
    then show ?thesis
      using undec_append [of "[]" "digit_char n"]
      by (simp add: digits.simps [of n] undec_def of_char_digit)
  next
    case False
    with 1 show ?thesis
      by (simp add: digits.simps [of n] undec_append of_char_digit)
  qed
qed

lemma undec_zeros: "foldl (\<lambda>a c. 10 * a + (of_char c - 48)) 0 (replicate k (CHR ''0'')) = (0::nat)"
  by (induction k) simp_all

lemma undec_pad3: "undec (pad3 n) = n"
  using undec_digits [of n] by (simp add: pad3_def undec_def undec_zeros)

lemma numbered_inj: "numbered b j = numbered b k \<Longrightarrow> j = k"
  by (metis numbered_def same_append_eq undec_pad3)

lemma numbered_neq_base: "numbered b k \<noteq> b"
  by (simp add: numbered_def)

lemma candidates_distinct: "distinct (b # map (numbered b) [1..<n])"
  using numbered_neq_base [of b]
  by (auto simp: distinct_map inj_on_def dest: numbered_inj) metis

lemma unique_name_fresh: "unique_name b taken \<notin> set taken"
proof -
  let ?cs = "b # map (numbered b) [1..<length taken + 2]"
  have "\<not> set ?cs \<subseteq> set taken"
  proof
    assume "set ?cs \<subseteq> set taken"
    then have "card (set ?cs) \<le> card (set taken)" by (simp add: card_mono)
    moreover have "card (set ?cs) = length ?cs"
      using candidates_distinct [of b "length taken + 2"] distinct_card by blast
    moreover have "card (set taken) \<le> length taken" by (rule card_length)
    moreover have "length ?cs = length taken + 2"
      by (simp only: length_Cons length_map length_upt)
    ultimately show False by linarith
  qed
  then have "\<exists>c. c \<in> set ?cs \<and> c \<notin> set taken" by blast
  then have "find (\<lambda>c. c \<notin> set taken) ?cs \<noteq> None"
    by (simp only: find_None_iff) blast
  then obtain c' where f: "find (\<lambda>c. c \<notin> set taken) ?cs = Some c'" by blast
  then have "c' \<notin> set taken" by (metis find_Some_iff)
  moreover have "unique_name b taken = c'" by (simp only: unique_name_def f option.simps)
  ultimately show ?thesis by simp
qed


subsection \<open>Evaluating unique names\<close>

lemma unique_name_free: "b \<notin> set taken \<Longrightarrow> unique_name b taken = b"
  by (simp add: unique_name_def)

lemma digit_char_1: "digit_char 1 = CHR ''1''" by code_simp
lemma digit_char_2: "digit_char 2 = CHR ''2''" by code_simp

lemma numbered_1: "numbered b 1 = b @ ''.001''"
proof -
  have "digits 1 = [digit_char 1]" by (subst digits.simps) simp
  then show ?thesis using digit_char_1 by (simp add: numbered_def pad3_def numeral_2_eq_2)
qed

lemma numbered_2: "numbered b 2 = b @ ''.002''"
proof -
  have "digits 2 = [digit_char 2]" by (subst digits.simps) simp
  then show ?thesis using digit_char_2 by (simp add: numbered_def pad3_def numeral_2_eq_2)
qed

lemma candidates_1: "[1..<length taken + 2] = 1 # [2..<length taken + 2]"
proof -
  have "(1::nat) < length taken + 2" by simp
  from upt_conv_Cons [OF this] show ?thesis by (simp only: Suc_1)
qed

lemma candidates_2: "taken \<noteq> [] \<Longrightarrow> [2..<length taken + 2] = 2 # [3..<length taken + 2]"
proof -
  assume "taken \<noteq> []"
  then have "(2::nat) < length taken + 2" by (cases taken) simp_all
  from upt_conv_Cons [OF this] show ?thesis by (simp only: eval_nat_numeral)
qed

lemma unique_name_001:
  assumes "b \<in> set taken" and "b @ ''.001'' \<notin> set taken"
  shows "unique_name b taken = b @ ''.001''"
  using assms by (simp only: unique_name_def candidates_1 list.map find.simps numbered_1) simp

lemma unique_name_002:
  assumes "b \<in> set taken" and "b @ ''.001'' \<in> set taken" and "b @ ''.002'' \<notin> set taken"
  shows "unique_name b taken = b @ ''.002''"
proof -
  have "taken \<noteq> []" using assms(1) by auto
  from candidates_2 [OF this] assms show ?thesis
    by (simp only: unique_name_def candidates_1 list.map find.simps numbered_1 numbered_2) simp
qed

lemmas unique_name_eval = unique_name_free unique_name_001 unique_name_002

subsection \<open>Lists of references and data-blocks\<close>

lemma map_of_update_at:
  "map_of (update_at p f xs) q = (if q = p then map_option f (map_of xs p) else map_of xs q)"
  by (induction xs) (auto simp: update_at_def)

lemma fst_set_update_at [simp]: "fst ` set (update_at p f xs) = fst ` set xs"
  by (induction xs) (auto simp: update_at_def)

lemma map_fst_update_at [simp]: "map fst (update_at p f xs) = map fst xs"
  by (induction xs) (auto simp: update_at_def)

lemma map_of_absent: "p \<notin> fst ` set xs \<Longrightarrow> map_of xs p = None"
  by (simp add: map_of_eq_None_iff)

lemma map_of_snoc_fresh: "p \<notin> fst ` set xs \<Longrightarrow> map_of (xs @ [(p, x)]) p = Some x"
  by (induction xs) auto

lemma map_of_snoc_other: "q \<noteq> p \<Longrightarrow> map_of (xs @ [(p, x)]) q = map_of xs q"
  by (induction xs) auto

lemma update_at_snoc:
  "update_at p f (xs @ [(q, x)]) = update_at p f xs @ [(q, if q = p then f x else x)]"
  by (simp add: update_at_def)

lemma update_at_absent: "p \<notin> fst ` set xs \<Longrightarrow> update_at p f xs = xs"
  by (induction xs) (auto simp: update_at_def)

lemma delete_at_absent: "p \<notin> fst ` set xs \<Longrightarrow> delete_at p xs = xs"
  by (induction xs) (auto simp: delete_at_def)

lemma delete_at_snoc:
  "delete_at p (xs @ [(q, x)]) = delete_at p xs @ (if q = p then [] else [(q, x)])"
  by (simp add: delete_at_def)

lemma delete_at_fresh: "p \<notin> fst ` set xs \<Longrightarrow> delete_at p (xs @ [(p, x)]) = xs"
  by (simp add: delete_at_snoc delete_at_absent)

lemma map_of_delete_at: "q \<noteq> p \<Longrightarrow> map_of (delete_at p xs) q = map_of xs q"
  by (induction xs) (auto simp: delete_at_def)

lemma fst_set_delete_at: "fst ` set (delete_at p xs) = fst ` set xs - {p}"
  by (induction xs) (auto simp: delete_at_def)

lemma distinct_delete_at: "distinct (map fst xs) \<Longrightarrow> distinct (map fst (delete_at p xs))"
  by (induction xs) (auto simp: delete_at_def)

lemma map_of_map_snd: "map_of (map (\<lambda>(q, x). (q, g x)) xs) p = map_option g (map_of xs p)"
  by (induction xs) auto

lemma fst_set_map_snd [simp]: "fst ` set (map (\<lambda>(q, x). (q, g x)) xs) = fst ` set xs"
  by (induction xs) auto

lemma map_fst_map_snd [simp]: "map fst (map (\<lambda>(q, x). (q, g x)) xs) = map fst xs"
  by (induction xs) auto

lemma names_append [simp]: "names nm (xs @ ys) = names nm xs @ names nm ys"
  by (simp add: names_def)

lemma names_single [simp]: "names nm [(p, x)] = [nm x]"
  by (simp add: names_def)

lemma names_deselect [simp]:
  "names ob_name (map (\<lambda>(q, ob). (q, ob\<lparr>ob_select := False\<rparr>)) xs) = names ob_name xs"
  by (induction xs) (auto simp: names_def)

lemma names_skeleton: "names ob_name xs = map (\<lambda>x. fst (snd x)) (skeleton xs)"
  by (simp add: names_def skeleton_def case_prod_unfold)

lemma ptrs_skeleton: "map fst (skeleton xs) = map fst xs"
  by (simp add: skeleton_def case_prod_unfold)

lemma skeleton_append [simp]: "skeleton (xs @ ys) = skeleton xs @ skeleton ys"
  by (simp add: skeleton_def)

lemma skeleton_update_at:
  assumes "\<And>ob. ob_name (f ob) = ob_name ob \<and> ob_type (f ob) = ob_type ob \<and>
                 ob_data (f ob) = ob_data ob \<and> modifiers (f ob) = modifiers ob"
  shows "skeleton (update_at p f xs) = skeleton xs"
  using assms by (induction xs) (auto simp: skeleton_def update_at_def)

lemma skeleton_map:
  assumes "\<And>ob. ob_name (f ob) = ob_name ob \<and> ob_type (f ob) = ob_type ob \<and>
                 ob_data (f ob) = ob_data ob \<and> modifiers (f ob) = modifiers ob"
  shows "skeleton (map (\<lambda>(q, ob). (q, f ob)) xs) = skeleton xs"
  using assms by (induction xs) (auto simp: skeleton_def)

subsection \<open>The node tree that \<^verbatim>\<open>execute\<close> builds\<close>

lemmas handles = output_node_def mix_shader_def emission_def transparent_def
  color_ramp_main_def separate_xyz_def tex_coord_def noise_tex_def mapping_anim_def
  mapping_stretch_def emission_falloff_ramp_def multiply_emission_def
  vertical_fade_ramp_def combine_fade_and_noise_def

lemmas step_defs = nodes_clear_def nodes_new_def set_location_def set_operation_def
  set_element_color_def set_element_position_def elements_new_def set_input_def
  set_input_component_def links_new_def with_node_def find_socket_def set_component_def
  new_node_def

lemma run_steps_append:
  "run_steps (fs @ gs) x = (case run_steps fs x of Inl e \<Rightarrow> Inl e | Inr y \<Rightarrow> run_steps gs y)"
  by (induction fs arbitrary: x) (auto split: sum.splits)

text \<open>Sections 3 and 4: whatever the material held and whatever the parameters, the
  steps run without raising and leave the fourteen nodes and the sixteen links.\<close>

lemma static_graph:
  "\<exists>m. run_steps ([nodes_clear] @ create_nodes @ configure_nodes props @ link_nodes) mat = Inr m \<and>
        map nd_type (nodes m) = node_types \<and> links m = graph_links \<and>
        map (\<lambda>nd. map fst (inputs nd)) (nodes m) = map (\<lambda>t. map fst (default_inputs t)) node_types \<and>
        inputs (nodes m ! 8) = default_inputs ShaderNodeMapping \<and>
        nd_name (nodes m ! 8) = ''Mapping'' \<and> nd_name (nodes m ! 9) = ''Mapping.001'' \<and>
        animation_data m = cleared mat \<and> ma_name m = ma_name mat"
  by (simp add: create_nodes_def configure_nodes_def link_nodes_def handles step_defs
      node_types_def graph_links_def mk_link_def cleared_def unique_name_eval
      cong: sum.case_cong_weak)

lemma digits_1: "digits (Suc 0) = ''1''"
proof -
  have "digits 1 = [digit_char 1]" by (subst digits.simps) simp
  then show ?thesis using digit_char_1 by simp
qed

lemma location_path_eq:
  \<open>''nodes["'' @ ''Mapping'' @ ''"]'' @ ''.inputs['' @ digits (Suc 0) @ ''].'' @ ''default_value'' = location_path\<close>
  by (simp add: digits_1 location_path_def)

lemma linear_and_cycles_eq:
  "linear_and_cycles m =
     Inr (case animation_data m of None \<Rightarrow> m
          | Some fcs \<Rightarrow> m\<lparr>animation_data := Some (map linear_cycles_curve fcs)\<rparr>)"
  by (auto simp: linear_and_cycles_def linear_cycles_curve_def split: option.splits)

lemma animate_steps:
  assumes "length (nodes m0) = 14"
    and "inputs (nodes m0 ! 8) = default_inputs ShaderNodeMapping"
    and "nd_name (nodes m0 ! 8) = ''Mapping''"
    and "animate props"
  shows "run_steps (add_animation props ipo) m0 =
     Inr (m0\<lparr>nodes := (nodes m0)[8 := (nodes m0 ! 8)\<lparr>inputs :=
                   [(''Vector'', VecV 0 0 0), (''Location'', VecV 0 5 0),
                    (''Rotation'', VecV 0 0 0), (''Scale'', VecV 1 1 1)]\<rparr>],
             animation_data := Some (animation_curves ipo
                (case animation_data m0 of None \<Rightarrow> [] | Some fcs \<Rightarrow> fcs))\<rparr>)"
  using assms location_path_eq
  by (simp add: add_animation_def mapping_anim_def keyframe_insert_def set_input_component_def
      with_node_def find_socket_def set_component_def components_def node_path_def Let_def
      linear_and_cycles_eq animation_curves_def numeral_2_eq_2
      cong: sum.case_cong_weak)

lemma cleared_flags [simp]: "cleared (mat\<lparr>use_nodes := u, blend_method := b\<rparr>) = cleared mat"
  by (simp add: cleared_def)

lemma length_node_types: "length node_types = 14"
  by (simp add: node_types_def)

text \<open>All of sections 3 to 5: \<^verbatim>\<open>build_node_tree\<close> never raises; the nodes and links
  are the same with and without animation, which only writes the \<open>Location\<close> input of
  \<open>mapping_anim\<close> and the animation curves.\<close>

lemma build_node_tree_result:
  "\<exists>m. build_node_tree props ipo mat = Inr m \<and>
        map nd_type (nodes m) = node_types \<and> links m = graph_links \<and>
        map (\<lambda>nd. map fst (inputs nd)) (nodes m) = map (\<lambda>t. map fst (default_inputs t)) node_types \<and>
        nd_name (nodes m ! 8) = ''Mapping'' \<and> nd_name (nodes m ! 9) = ''Mapping.001'' \<and>
        ma_name m = ma_name mat \<and>
        (if animate props
         then snd (inputs (nodes m ! 8) ! 1) = VecV 0 5 0 \<and>
              animation_data m = Some (animation_curves ipo
                 (case cleared mat of None \<Rightarrow> [] | Some fcs \<Rightarrow> fcs))
         else snd (inputs (nodes m ! 8) ! 1) = VecV 0 0 0 \<and> animation_data m = cleared mat)"
proof -
  let ?mat = "mat\<lparr>use_nodes := True, blend_method := ''BLEND''\<rparr>"
  obtain m0 where
    r: "run_steps ([nodes_clear] @ create_nodes @ configure_nodes props @ link_nodes) ?mat = Inr m0"
    and t: "map nd_type (nodes m0) = node_types" and l: "links m0 = graph_links"
    and i: "map (\<lambda>nd. map fst (inputs nd)) (nodes m0) = map (\<lambda>t. map fst (default_inputs t)) node_types"
    and loc: "inputs (nodes m0 ! 8) = default_inputs ShaderNodeMapping"
    and n8: "nd_name (nodes m0 ! 8) = ''Mapping''" and n9: "nd_name (nodes m0 ! 9) = ''Mapping.001''"
    and a: "animation_data m0 = cleared ?mat" and nm: "ma_name m0 = ma_name ?mat"
    using static_graph [of props ?mat] by blast
  have len: "length (nodes m0) = 14"
    using t length_node_types by (metis length_map)
  have b: "build_node_tree props ipo mat = run_steps (add_animation props ipo) m0"
    using r run_steps_append [of "[nodes_clear] @ create_nodes @ configure_nodes props @ link_nodes"
        "add_animation props ipo" ?mat]
    by (simp add: build_node_tree_def)
  show ?thesis
  proof (cases "animate props")
    case False
    then have "build_node_tree props ipo mat = Inr m0"
      using b by (simp add: add_animation_def)
    with False t l i loc n8 n9 a nm show ?thesis by simp
  next
    case True
    let ?nd = "(nodes m0 ! 8)\<lparr>inputs :=
                 [(''Vector'', VecV 0 0 0), (''Location'', VecV 0 5 0),
                  (''Rotation'', VecV 0 0 0), (''Scale'', VecV 1 1 1)]\<rparr>"
    let ?m = "m0\<lparr>nodes := (nodes m0)[8 := ?nd],
                 animation_data := Some (animation_curves ipo
                    (case animation_data m0 of None \<Rightarrow> [] | Some fcs \<Rightarrow> fcs))\<rparr>"
    have e: "build_node_tree props ipo mat = Inr ?m"
      using b animate_steps [OF len loc n8 True, of ipo] by simp
    have t': "map nd_type ((nodes m0)[8 := ?nd]) = map nd_type (nodes m0)"
      by (simp add: map_update list_update_same_conv len)
    have i': "map (\<lambda>nd. map fst (inputs nd)) ((nodes m0)[8 := ?nd]) =
              map (\<lambda>nd. map fst (inputs nd)) (nodes m0)"
      using loc by (simp add: map_update list_update_same_conv len)
    have "nd_name ((nodes m0)[8 := ?nd] ! 8) = ''Mapping''" "nd_name ((nodes m0)[8 := ?nd] ! 9) = ''Mapping.001''"
      "snd (inputs ((nodes m0)[8 := ?nd] ! 8) ! 1) = VecV 0 5 0"
      using len n8 n9 by simp_all
    with e True t l i a nm t' i' show ?thesis by simp
  qed
qed

subsection \<open>Properties of a tree with these nodes and links\<close>





subsection \<open>The animation curves\<close>

lemma not_endswith_Location:
  \<open>\<not> endswith (p @ ''default_value'') ''['Location']''\<close>
  by (auto simp: endswith_def suffix_def append_eq_append_conv2 Cons_eq_append_conv
      append_eq_Cons_conv)

lemma linear_cycles_curve_location:
  "data_path fc = location_path \<Longrightarrow> linear_cycles_curve fc = fc"
proof -
  assume d: "data_path fc = location_path"
  have \<open>location_path = ''nodes["Mapping"].inputs[1].'' @ ''default_value''\<close>
    by (simp add: location_path_def)
  then have \<open>\<not> endswith (data_path fc) ''['Location']''\<close>
    using d not_endswith_Location by metis
  then show ?thesis by (simp add: linear_cycles_curve_def)
qed

lemma animation_curves_fresh:
  "animation_curves ipo [] =
     [\<lparr>data_path = location_path, array_index = 0,
       keyframe_points = [mk_key 1 0 ipo, mk_key 250 0 ipo], fc_modifiers = []\<rparr>,
      \<lparr>data_path = location_path, array_index = 1,
       keyframe_points = [mk_key 1 0 ipo, mk_key 250 5 ipo], fc_modifiers = []\<rparr>,
      \<lparr>data_path = location_path, array_index = 2,
       keyframe_points = [mk_key 1 0 ipo, mk_key 250 0 ipo], fc_modifiers = []\<rparr>]"
  by (simp add: animation_curves_def key_fcurve_def insert_key_def mk_key_def
      linear_cycles_curve_location)

text \<open>The tree as a function of the parameters, for use in equations.\<close>

lemma build_node_tree_eq:
  "build_node_tree props ipo mat = Inr (node_tree_of props ipo mat)"
  using build_node_tree_result [of props ipo mat] by (auto simp: node_tree_of_def)

lemma node_tree_of_facts:
  "map nd_type (nodes (node_tree_of props ipo mat)) = node_types"
  "links (node_tree_of props ipo mat) = graph_links"
  "map (\<lambda>nd. map fst (inputs nd)) (nodes (node_tree_of props ipo mat)) =
     map (\<lambda>t. map fst (default_inputs t)) node_types"
  "ma_name (node_tree_of props ipo mat) = ma_name mat"
  "animate props \<Longrightarrow> animation_data (node_tree_of props ipo mat) =
     Some (animation_curves ipo (case cleared mat of None \<Rightarrow> [] | Some fcs \<Rightarrow> fcs))"
  "\<not> animate props \<Longrightarrow> animation_data (node_tree_of props ipo mat) = cleared mat"
  using build_node_tree_result [of props ipo mat] build_node_tree_eq [of props ipo mat]
  by auto

subsection \<open>The sections of \<^verbatim>\<open>execute\<close> as equations\<close>

lemma create_base_mesh_eq:
  assumes "Suc (next_ptr s) \<notin> fst ` set (objects s)" and "next_ptr s \<notin> fst ` set (meshes s)"
  shows "create_base_mesh props s =
     Inr (Suc (next_ptr s),
          s\<lparr>objects := map (\<lambda>(q, ob). (q, ob\<lparr>ob_select := False\<rparr>)) (objects s) @
                        [(Suc (next_ptr s), plane_object s)],
            meshes := meshes s @ [(next_ptr s, plane_mesh props s)],
            collection := collection s @ [Suc (next_ptr s)],
            next_ptr := Suc (Suc (next_ptr s)),
            active_object := Some (Suc (next_ptr s)),
            edit_mode := False\<rparr>)"
proof -
  have a: "Suc (next_ptr s) \<notin> fst ` set (map (\<lambda>(q, ob). (q, ob\<lparr>ob_select := False\<rparr>)) (objects s))"
    using assms(1) by force
  show ?thesis
    using assms a
    by (simp add: create_base_mesh_def primitive_plane_add_def select_all_DESELECT_def
        rename_object_def transform_resize_def mesh_subdivide_def mode_set_OBJECT_def
        transform_apply_def Let_def map_of_snoc_fresh
        update_at_snoc update_at_absent delete_at_snoc delete_at_absent
        plane_object_def plane_mesh_def
        del: map_of_append)
qed

lemma add_modifiers_eq:
  assumes "Suc (next_ptr s) \<notin> fst ` set (objects s)" and "next_ptr s \<notin> fst ` set (meshes s)"
    and "Suc (Suc (next_ptr s)) \<notin> fst ` set (textures s)"
  shows "\<exists>sB. create_base_mesh props s = Inr (Suc (next_ptr s), sB) \<and>
           add_modifiers c (Suc (next_ptr s)) sB = (Suc (Suc (next_ptr s)), scaffold props c s)"
proof -
  have a: "Suc (next_ptr s) \<notin> fst ` set (map (\<lambda>(q, ob). (q, ob\<lparr>ob_select := False\<rparr>)) (objects s))"
    using assms(1) by force
  show ?thesis
    using assms(3) a
    by (simp add: create_base_mesh_eq [OF assms(1,2)] add_modifiers_def textures_new_def
        modifiers_new_def Let_def update_at_snoc update_at_absent scaffold_def
        follow_curve_def displacement_def aurora_texture_def plane_object_def)
qed

lemma get_prop_scaffold:
  assumes "c \<noteq> Suc (next_ptr s)"
  shows "get_prop (scaffold props c s) c k = get_prop s c k"
  using assms
  by (simp add: get_prop_def scaffold_def map_of_snoc_other map_of_map_snd
      del: map_of_append split: option.splits)

lemma create_material_old:
  assumes "old_material s c = Some (mat, ma)"
  shows "create_or_update_material c s = (mat, s)"
  using assms
  by (auto simp: create_or_update_material_def old_material_def Let_def split: option.splits)

lemma create_material_new:
  assumes "old_material s c = None" and "next_ptr s \<notin> fst ` set (materials s)"
  shows "create_or_update_material c s =
     (next_ptr s,
      set_prop c ''aurora_material_name'' (ma_name (aurora_material s))
        (s\<lparr>materials := materials s @ [(next_ptr s, aurora_material s)],
           next_ptr := Suc (next_ptr s)\<rparr>))"
  using assms
  by (auto simp: create_or_update_material_def old_material_def Let_def materials_new_def
      map_of_snoc_fresh map_of_absent aurora_material_def simp del: map_of_append
      split: option.splits)

lemma update_node_tree_eq:
  assumes "map_of (materials s) mat = Some ma0"
  shows "update_node_tree props mat s =
     Inr (s\<lparr>materials := update_at mat
              (\<lambda>x. node_tree_of props (keyframe_interpolation s) ma0) (materials s)\<rparr>)"
  using assms by (simp add: update_node_tree_def build_node_tree_eq)

lemma finalize_eq:
  assumes "map_of (objects s) a = Some aob" and "ob_data aob = Some me"
    and "map_of (textures s) t = Some tx"
  shows "finalize c a t mat s =
     Inr (report ''INFO'' ''Aurora created/updated successfully!''
           ((select_set a True (select_set c False
              (set_prop c ''aurora_texture_name'' (tx_name tx)
                (set_prop c ''aurora_object_name'' (ob_name aob)
                  (s\<lparr>meshes := update_at me (\<lambda>x. x\<lparr>me_materials := me_materials x @ [mat]\<rparr>)
                                  (meshes s)\<rparr>)))))\<lparr>active_object := Some a\<rparr>))"
  using assms by (simp add: finalize_def Let_def)

subsection \<open>The effect of \<^verbatim>\<open>execute\<close> after its cleanup\<close>

lemma get_by_name_Some:
  assumes "get_by_name nm xs n = Some (p, x)"
  shows "(p, x) \<in> set xs" and "nm x = n"
proof -
  from assms obtain i where "i < length xs" "xs ! i = (p, x)" "nm x = n"
    by (auto simp: get_by_name_def find_Some_iff)
  then show "(p, x) \<in> set xs" and "nm x = n"
    using nth_mem by force+
qed

lemma get_prop_set_prop:
  "get_prop (set_prop p k v s) q k' =
     (if q = p \<and> k' = k \<and> p \<in> fst ` set (objects s) then Some v else get_prop s q k')"
proof (cases "map_of (objects s) p")
  case None
  then have "p \<notin> fst ` set (objects s)" by (simp add: map_of_eq_None_iff)
  with None show ?thesis
    by (simp add: get_prop_def set_prop_def map_of_update_at)
next
  case (Some ob)
  then have "p \<in> fst ` set (objects s)"
    using map_of_eq_None_iff [of "objects s" p] by simp
  with Some show ?thesis
    by (simp add: get_prop_def set_prop_def map_of_update_at update_conv')
qed

lemma get_prop_select_set [simp]: "get_prop (select_set p b s) q k = get_prop s q k"
  by (auto simp: get_prop_def select_set_def map_of_update_at split: option.splits)

lemma get_prop_report [simp]: "get_prop (report l m s) q k = get_prop s q k"
  by (simp add: get_prop_def report_def)

lemma get_prop_fields [simp]:
  "get_prop (s\<lparr>meshes := ms\<rparr>) q k = get_prop s q k"
  "get_prop (s\<lparr>materials := mats\<rparr>) q k = get_prop s q k"
  "get_prop (s\<lparr>next_ptr := np\<rparr>) q k = get_prop s q k"
  "get_prop (s\<lparr>active_object := ao\<rparr>) q k = get_prop s q k"
  by (simp_all add: get_prop_def)

lemma objects_set_prop [simp]: "fst ` set (objects (set_prop p k v s)) = fst ` set (objects s)"
  by (simp add: set_prop_def)

lemma skeleton_set_prop [simp]: "skeleton (objects (set_prop p k v s)) = skeleton (objects s)"
  by (simp add: set_prop_def skeleton_update_at)

lemma skeleton_select_set [simp]: "skeleton (objects (select_set p b s)) = skeleton (objects s)"
  by (simp add: select_set_def skeleton_update_at)

lemma skeleton_scaffold:
  "skeleton (objects (scaffold props c s)) =
     skeleton (objects s) @
     [(Suc (next_ptr s), unique_name ''Aurora'' (names ob_name (objects s)), MESH,
       Some (next_ptr s), [follow_curve c, displacement (Suc (Suc (next_ptr s)))])]"
  by (simp add: scaffold_def skeleton_map) (simp add: skeleton_def plane_object_def)

lemma other_fields_set_prop [simp]:
  "meshes (set_prop p k v s) = meshes s" "textures (set_prop p k v s) = textures s"
  "materials (set_prop p k v s) = materials s" "next_ptr (set_prop p k v s) = next_ptr s"
  "active_object (set_prop p k v s) = active_object s"
  "keyframe_interpolation (set_prop p k v s) = keyframe_interpolation s"
  "collection (set_prop p k v s) = collection s"
  by (simp_all add: set_prop_def)

lemma other_fields_select_set [simp]:
  "meshes (select_set p b s) = meshes s" "textures (select_set p b s) = textures s"
  "materials (select_set p b s) = materials s" "next_ptr (select_set p b s) = next_ptr s"
  "active_object (select_set p b s) = active_object s"
  "keyframe_interpolation (select_set p b s) = keyframe_interpolation s"
  "collection (select_set p b s) = collection s"
  by (simp_all add: select_set_def)

lemma other_fields_report [simp]:
  "objects (report l m s) = objects s"
  "meshes (report l m s) = meshes s" "textures (report l m s) = textures s"
  "materials (report l m s) = materials s" "next_ptr (report l m s) = next_ptr s"
  "active_object (report l m s) = active_object s"
  "keyframe_interpolation (report l m s) = keyframe_interpolation s"
  "collection (report l m s) = collection s"
  by (simp_all add: report_def)

lemma map_of_objects_set_prop:
  "q \<noteq> p \<Longrightarrow> map_of (objects (set_prop p k v s)) q = map_of (objects s) q"
  by (simp add: set_prop_def map_of_update_at)

text \<open>What \<^verbatim>\<open>execute\<close> leaves after the cleanup, on a scene whose references are
  below \<open>next_ptr\<close> and that holds the curve.\<close>

lemma rebuild_effect:
  assumes fo: "\<forall>p \<in> fst ` set (objects s). p < next_ptr s"
    and fm: "\<forall>p \<in> fst ` set (meshes s). p < next_ptr s"
    and ft: "\<forall>p \<in> fst ` set (textures s). p < next_ptr s"
    and fma: "\<forall>p \<in> fst ` set (materials s). p < next_ptr s"
    and c: "c \<in> fst ` set (objects s)"
  shows "\<exists>s' mat ma0. rebuild props c s = Inr s' \<and>
     skeleton (objects s') = skeleton (objects s) @
       [(Suc (next_ptr s), unique_name ''Aurora'' (names ob_name (objects s)), MESH,
         Some (next_ptr s), [follow_curve c, displacement (Suc (Suc (next_ptr s)))])] \<and>
     meshes s' = meshes s @ [(next_ptr s, (plane_mesh props s)\<lparr>me_materials := [mat]\<rparr>)] \<and>
     textures s' = textures s @ [(Suc (Suc (next_ptr s)), aurora_texture s)] \<and>
     map_of (materials s') mat = Some (node_tree_of props (keyframe_interpolation s) ma0) \<and>
     (case old_material s c of
        Some (p, ma) \<Rightarrow> mat = p \<and> map_of (materials s) p = Some ma0 \<and>
                       map fst (materials s') = map fst (materials s) \<and>
                       next_ptr s' = Suc (Suc (Suc (next_ptr s)))
      | None \<Rightarrow> mat = Suc (Suc (Suc (next_ptr s))) \<and> ma0 = aurora_material s \<and>
                map fst (materials s') = map fst (materials s) @ [mat] \<and>
                next_ptr s' = Suc (Suc (Suc (Suc (next_ptr s))))) \<and>
     active_object s' = Some (Suc (next_ptr s)) \<and>
     keyframe_interpolation s' = keyframe_interpolation s \<and>
     (\<forall>k. get_prop s' c k =
        (if k = ''aurora_texture_name'' then Some (tx_name (aurora_texture s))
         else if k = ''aurora_object_name''
              then Some (unique_name ''Aurora'' (names ob_name (objects s)))
         else if k = ''aurora_material_name''
              then (case old_material s c of
                      Some (p, ma) \<Rightarrow> get_prop s c k
                    | None \<Rightarrow> Some (ma_name (aurora_material s)))
         else get_prop s c k))"
proof -
  let ?n = "next_ptr s"
  let ?a = "Suc ?n" and ?t = "Suc (Suc ?n)"
  let ?X = "scaffold props c s"
  let ?aob = "(plane_object s)\<lparr>modifiers := [follow_curve c, displacement ?t]\<rparr>"
  have fa: "?a \<notin> fst ` set (objects s)" and fn: "?n \<notin> fst ` set (meshes s)"
    and ftt: "?t \<notin> fst ` set (textures s)" and fmat: "Suc ?t \<notin> fst ` set (materials s)"
    and ca: "c \<noteq> ?a"
    using fo fm ft fma c by fastforce+
  obtain sB where base: "create_base_mesh props s = Inr (?a, sB)"
    and mods: "add_modifiers c ?a sB = (?t, ?X)"
    using add_modifiers_eq [OF fa fn ftt] by blast
  have rb: "rebuild props c s =
      (case create_or_update_material c ?X of
         (mat, x) \<Rightarrow> (case update_node_tree props mat x of
                        Inl e \<Rightarrow> Inl e
                      | Inr x' \<Rightarrow> finalize c ?a ?t mat x'))"
    by (simp add: rebuild_def base mods)
  have gp: "\<And>k. get_prop ?X c k = get_prop s c k"
    using get_prop_scaffold [OF ca] by simp
  have mX: "materials ?X = materials s" and nX: "next_ptr ?X = Suc ?t"
    and tX: "textures ?X = textures s @ [(?t, aurora_texture s)]"
    and meX: "meshes ?X = meshes s @ [(?n, plane_mesh props s)]"
    and kX: "keyframe_interpolation ?X = keyframe_interpolation s"
    by (simp_all add: scaffold_def)
  have cX: "c \<in> fst ` set (objects ?X)"
    using c by (force simp: scaffold_def)
  have fa': "?a \<notin> fst ` set (map (\<lambda>(q, ob). (q, ob\<lparr>ob_select := False\<rparr>)) (objects s))"
    using fa by force
  have aX: "map_of (objects ?X) ?a = Some ?aob"
    by (simp add: scaffold_def map_of_snoc_fresh [OF fa'] del: map_of_append)
  have dX: "ob_data ?aob = Some ?n" and nameX: "ob_name ?aob = unique_name ''Aurora'' (names ob_name (objects s))"
    by (simp_all add: plane_object_def)
  have txX: "map_of (textures ?X) ?t = Some (aurora_texture s)"
    using ftt by (simp add: tX map_of_snoc_fresh del: map_of_append)
  have om: "old_material ?X c = old_material s c"
    by (simp add: old_material_def gp mX split: option.splits)
  have upd_mesh: "update_at ?n (\<lambda>x. x\<lparr>me_materials := me_materials x @ [mat]\<rparr>) (meshes ?X) =
        meshes s @ [(?n, (plane_mesh props s)\<lparr>me_materials := [mat]\<rparr>)]" for mat
    using fn by (simp add: meX update_at_snoc update_at_absent plane_mesh_def)
  show ?thesis
  proof (cases "old_material s c")
    case (Some pm)
    obtain p ma where pm: "pm = (p, ma)" by (cases pm)
    have "(p, ma) \<in> set (materials s)"
      using Some pm get_by_name_Some(1) [of ma_name "materials s" _ p ma]
      by (auto simp: old_material_def split: option.splits)
    then have "map_of (materials s) p \<noteq> None"
      by (simp add: map_of_eq_None_iff) force
    then obtain ma0 where m0: "map_of (materials s) p = Some ma0" by blast
    have cr: "create_or_update_material c ?X = (p, ?X)"
      using create_material_old [of ?X c p ma] om Some pm by simp
    let ?x' = "?X\<lparr>materials := update_at p
                 (\<lambda>x. node_tree_of props (keyframe_interpolation ?X) ma0) (materials ?X)\<rparr>"
    have un: "update_node_tree props p ?X = Inr ?x'"
      using update_node_tree_eq [of ?X p ma0 props] m0 mX by simp
    have a': "map_of (objects ?x') ?a = Some ?aob" using aX by simp
    have t': "map_of (textures ?x') ?t = Some (aurora_texture s)" using txX by simp
    note fin = finalize_eq [OF a' dX t', of c p]
    have r: "rebuild props c s = finalize c ?a ?t p ?x'"
      by (simp add: rb cr un)
    from r fin obtain E where rE: "rebuild props c s = Inr E"
      and E: "E = report ''INFO'' ''Aurora created/updated successfully!''
           ((select_set ?a True (select_set c False
              (set_prop c ''aurora_texture_name'' (tx_name (aurora_texture s))
                (set_prop c ''aurora_object_name'' (ob_name ?aob)
                  (?x'\<lparr>meshes := update_at ?n (\<lambda>x. x\<lparr>me_materials := me_materials x @ [p]\<rparr>)
                                  (meshes ?x')\<rparr>)))))\<lparr>active_object := Some ?a\<rparr>)"
      by simp
    show ?thesis
      apply (rule exI [of _ E], rule exI [of _ p], rule exI [of _ ma0])
      apply (simp only: rE)
      unfolding E
      using Some pm m0 c cX upd_mesh [of p] ca
      apply (simp add: get_prop_set_prop gp skeleton_scaffold mX tX nX kX nameX
          map_of_update_at)
      done
  next
    case None
    let ?x = "set_prop c ''aurora_material_name'' (ma_name (aurora_material ?X))
               (?X\<lparr>materials := materials ?X @ [(next_ptr ?X, aurora_material ?X)],
                   next_ptr := Suc (next_ptr ?X)\<rparr>)"
    have am: "aurora_material ?X = aurora_material s"
      by (simp add: aurora_material_def mX)
    have cr: "create_or_update_material c ?X = (Suc ?t, ?x)"
      using create_material_new [of ?X c] om None fmat mX nX by simp
    have m0: "map_of (materials ?x) (Suc ?t) = Some (aurora_material s)"
      using fmat by (simp add: mX nX am map_of_snoc_fresh del: map_of_append)
    let ?x' = "?x\<lparr>materials := update_at (Suc ?t)
                 (\<lambda>x. node_tree_of props (keyframe_interpolation ?x) (aurora_material s))
                 (materials ?x)\<rparr>"
    have un: "update_node_tree props (Suc ?t) ?x = Inr ?x'"
      using update_node_tree_eq [OF m0, of props] by simp
    have a': "map_of (objects ?x') ?a = Some ?aob"
      using aX ca by (simp add: map_of_objects_set_prop)
    have t': "map_of (textures ?x') ?t = Some (aurora_texture s)" using txX by simp
    note fin = finalize_eq [OF a' dX t', of c "Suc ?t"]
    have r: "rebuild props c s = finalize c ?a ?t (Suc ?t) ?x'"
      by (simp add: rb cr un)
    from r fin obtain E where rE: "rebuild props c s = Inr E"
      and E: "E = report ''INFO'' ''Aurora created/updated successfully!''
           ((select_set ?a True (select_set c False
              (set_prop c ''aurora_texture_name'' (tx_name (aurora_texture s))
                (set_prop c ''aurora_object_name'' (ob_name ?aob)
                  (?x'\<lparr>meshes := update_at ?n
                         (\<lambda>x. x\<lparr>me_materials := me_materials x @ [Suc ?t]\<rparr>)
                         (meshes ?x')\<rparr>)))))\<lparr>active_object := Some ?a\<rparr>)"
      by simp
    show ?thesis
      apply (rule exI [of _ E], rule exI [of _ "Suc ?t"], rule exI [of _ "aurora_material s"])
      apply (simp only: rE)
      unfolding E
      using None c cX upd_mesh [of "Suc ?t"] ca fmat
      apply (simp add: get_prop_set_prop gp skeleton_scaffold mX tX nX kX nameX am
          map_of_update_at update_at_snoc update_at_absent map_of_snoc_fresh
          del: map_of_append)
      done
  qed
qed


subsection \<open>One run on the scene with one curve\<close>

lemmas execute_defs = create_aurora_def poll_def execute_def pre_creation_cleanup_def
  get_prop_def create_base_mesh_def primitive_plane_add_def select_all_DESELECT_def
  rename_object_def transform_resize_def mesh_subdivide_def mode_set_OBJECT_def
  transform_apply_def add_modifiers_def modifiers_new_def textures_new_def
  create_or_update_material_def materials_new_def set_prop_def update_node_tree_def
  finalize_def select_set_def report_def update_at_def delete_at_def names_def
  get_by_name_def Let_def

lemma create_aurora_curve_scene:
  "create_aurora props curve_scene =
     (Inr FINISHED,
      curve_scene\<lparr>
        objects :=
          [(2, \<lparr>ob_name = ''AuroraCurve'', ob_type = CURVE, ob_data = Some 1,
                ob_props = [(''aurora_material_name'', ''Aurora_Material''),
                            (''aurora_object_name'', ''Aurora''),
                            (''aurora_texture_name'', ''AuroraDisplaceTexture'')],
                modifiers = [], ob_scale = (1, 1, 1), rotation_euler_x = 0,
                ob_select = False\<rparr>),
           (4, \<lparr>ob_name = ''Aurora'', ob_type = MESH, ob_data = Some 3, ob_props = [],
                modifiers = [follow_curve 2, displacement 5], ob_scale = (1, 1, 1),
                rotation_euler_x = 0, ob_select = True\<rparr>)],
        meshes :=
          [(3, \<lparr>me_name = ''Plane'', me_dim_x = 40, me_dim_y = \<bar>aurora_height props\<bar>,
                me_subdivide = [(subdivisions props, 0)], me_rot_x = 15708 / 10000,
                me_materials = [6], me_other_users = 0\<rparr>)],
        textures :=
          [(5, \<lparr>tx_name = ''AuroraDisplaceTexture'', tx_type = ''CLOUDS'',
                noise_scale_tx = 1 / 2, tx_other_users = 0\<rparr>)],
        materials :=
          [(6, node_tree_of props BEZIER
                 \<lparr>ma_name = ''Aurora_Material'', use_nodes = False, blend_method = ''OPAQUE'',
                  nodes = [], links = [], animation_data = None\<rparr>)],
        collection := [2, 4], next_ptr := 7, active_object := Some 4,
        reports := [(''INFO'', ''Aurora created/updated successfully!'')]\<rparr>)"
  by (simp add: execute_defs curve_scene_def new_scene_def build_node_tree_eq
      unique_name_free follow_curve_def displacement_def
      cong: sum.case_cong_weak option.case_cong_weak)

lemma animation_of_new_material:
  "animation_data (node_tree_of props ipo
      \<lparr>ma_name = n, use_nodes = False, blend_method = ''OPAQUE'', nodes = [], links = [],
       animation_data = None\<rparr>) =
     (if animate props then Some (animation_curves ipo []) else None)"
  by (simp add: node_tree_of_facts cleared_def)





subsection \<open>Path capture\<close>

text \<open>
  Claim C6. A press of the primary button whose ray is parallel to the ground plane (the z
  component of its direction is zero) or whose intersection with the plane lies behind the
  origin of the ray (\<open>t < 0\<close>) adds no point: \<^verbatim>\<open>modal\<close> returns
  \<open>RUNNING_MODAL\<close> without raising, the operator keeps its points and its curve, and the
  scene is unchanged but for the redraw request of the area.
\<close>

theorem degenerate_click_is_noop:
  assumes "ev_type ev = ''LEFTMOUSE''" and "ev_value ev = ''PRESS''"
    and "origin = region_2d_to_origin_3d s (mouse_region_x ev, mouse_region_y ev)"
    and "vec = region_2d_to_vector_3d s (mouse_region_x ev, mouse_region_y ev)"
    and "vec_z vec = 0 \<or> - vec_z origin / vec_z vec < 0"
  shows "modal ev self s = Inr (RUNNING_MODAL, self, s\<lparr>redraws := Suc (redraws s)\<rparr>)"
proof -
  have "click_location origin vec = None"
    using assms(5) by (auto simp: click_location_def Let_def)
  with assms(1-4) show ?thesis
    by (simp add: modal_def Let_def)
qed

theorem degenerate_click_is_noop_witness:
  "vec_z (region_2d_to_vector_3d side_view (3, 4)) = 0 \<and>
   modal (click 3 4) new_self side_view =
     Inr (RUNNING_MODAL, new_self, side_view\<lparr>redraws := Suc (redraws side_view)\<rparr>)"
proof -
  have h1: "ev_type (click 3 4) = ''LEFTMOUSE''" and h2: "ev_value (click 3 4) = ''PRESS''"
    by (simp_all add: click_def)
  have h3: "(3, 4, 10) = region_2d_to_origin_3d side_view
              (mouse_region_x (click 3 4), mouse_region_y (click 3 4))"
    by (simp add: click_def side_view_def new_scene_def)
  have h4: "(1, 0, 0) = region_2d_to_vector_3d side_view
              (mouse_region_x (click 3 4), mouse_region_y (click 3 4))"
    by (simp add: click_def side_view_def new_scene_def)
  have h5: "vec_z (1, 0, 0) = 0 \<or> - vec_z (3, 4, 10) / vec_z (1, 0, 0) < 0"
    by (simp add: vec_z_def)
  have "vec_z (region_2d_to_vector_3d side_view (3, 4)) = 0"
    by (simp add: side_view_def vec_z_def)
  with degenerate_click_is_noop [OF h1 h2 h3 h4 h5, of new_self] show ?thesis
    by (intro conjI) assumption+
qed

lemma update_curve_new:
  assumes v: "\<forall>p \<in> fst ` set (objects s). p < next_ptr s"
    and c: "\<forall>p \<in> fst ` set (curves s). p < next_ptr s"
    and n: "curve_ob self = None"
  shows "\<exists>s' ob c. update_curve self s = Inr (self\<lparr>curve_ob := Some (Suc (next_ptr s))\<rparr>, s') \<and>
           objects s' = objects s @ [(Suc (next_ptr s), ob)] \<and> modifiers ob = [] \<and>
           ob_type ob = CURVE \<and> ob_data ob = Some (next_ptr s) \<and>
           map_of (curves s') (next_ptr s) = Some c \<and> splines c \<noteq> [] \<and>
           collection s' = collection s @ [Suc (next_ptr s)] \<and>
           next_ptr s' = Suc (Suc (next_ptr s)) \<and> draw_handlers s' = draw_handlers s \<and>
           region_2d_to_origin_3d s' = region_2d_to_origin_3d s \<and>
           region_2d_to_vector_3d s' = region_2d_to_vector_3d s \<and>
           fst ` set (curves s') = insert (next_ptr s) (fst ` set (curves s))"
proof -
  have a: "Suc (next_ptr s) \<notin> fst ` set (objects s)" using v by auto
  have b: "next_ptr s \<notin> fst ` set (curves s)" using c by auto
  show ?thesis
    using n
    by (simp add: update_curve_def curves_new_def objects_new_def Let_def splines_new_def
        map_of_snoc_fresh [OF a] map_of_update_at map_of_snoc_fresh [OF b]
        fst_set_update_at del: map_of_append)
qed

lemma update_curve_old:
  assumes "curve_ob self = Some p" and "map_of (objects s) p = Some ob" and "ob_type ob = CURVE"
    and "ob_data ob = Some d" and "map_of (curves s) d = Some c" and "splines c \<noteq> []"
  shows "\<exists>s' c'. update_curve self s = Inr (self, s') \<and> objects s' = objects s \<and>
           map_of (curves s') d = Some c' \<and> splines c' \<noteq> [] \<and> collection s' = collection s \<and>
           next_ptr s' = next_ptr s \<and> draw_handlers s' = draw_handlers s \<and>
           region_2d_to_origin_3d s' = region_2d_to_origin_3d s \<and>
           region_2d_to_vector_3d s' = region_2d_to_vector_3d s \<and>
           fst ` set (curves s') = fst ` set (curves s)"
  using assms
  by (cases "splines c") (simp_all add: update_curve_def Let_def map_of_update_at fst_set_update_at)

lemma modal_no_point:
  assumes "no_point s ev"
  shows "\<exists>st. modal ev self s = Inr (st, self, s\<lparr>redraws := Suc (redraws s)\<rparr>) \<and>
              st \<noteq> FINISHED \<and> st \<noteq> CANCELLED"
  using assms by (auto simp: no_point_def modal_def Let_def split: if_splits)

lemma no_point_redraws [simp]: "no_point (s\<lparr>redraws := n\<rparr>) ev = no_point s ev"
  by (simp add: no_point_def)

lemma run_modal_no_point:
  assumes "\<forall>ev \<in> set evs. no_point s ev"
  shows "run_modal (evs @ [c]) self s = run_modal [c] self (s\<lparr>redraws := redraws s + length evs\<rparr>)"
  using assms
proof (induction evs arbitrary: s)
  case Nil
  then show ?case by simp
next
  case (Cons ev evs)
  from Cons.prems have np: "no_point s ev" by simp
  obtain st where m: "modal ev self s = Inr (st, self, s\<lparr>redraws := Suc (redraws s)\<rparr>)"
    and st: "st \<noteq> FINISHED" "st \<noteq> CANCELLED"
    using modal_no_point [OF np] by blast
  have "\<forall>e \<in> set evs. no_point (s\<lparr>redraws := Suc (redraws s)\<rparr>) e"
    using Cons.prems by simp
  from Cons.IH [OF this] show ?case
    using m st by simp
qed

lemma modal_confirm_empty:
  assumes "ev_type c \<in> {''RIGHTMOUSE'', ''RET''}" and "curve_ob self = None"
  shows "run_modal [c] self s =
           Inr (FINISHED, self,
                report ''INFO'' ''Path created.'' (cursor_set ''DEFAULT''
                  (draw_handler_remove (handle self) (s\<lparr>redraws := Suc (redraws s)\<rparr>))))"
  using assms by (auto simp: modal_def finish_def Let_def)

text \<open>
  Claim C10. A session in which no point was added (every event before the confirmation is
  neither a confirmation nor a cancellation, and every press of the primary button among
  them is degenerate) and which is then confirmed ends \<open>FINISHED\<close> with the report
  "Path created.": the overlay handle is no longer registered, the cursor is the default
  one, no curve was created, and the objects of the scene (with their selection flags), its
  curves, its collection and its active object are the ones before the session.
\<close>

theorem confirm_without_points:
  assumes "space_type s = ''VIEW_3D''"
    and "\<forall>ev \<in> set evs. no_point s ev"
    and "ev_type c \<in> {''RIGHTMOUSE'', ''RET''}"
  shows "\<exists>self' s'. draw_path_session self s (evs @ [c]) = Inr (FINISHED, self', s') \<and>
           handle self' \<notin> set (draw_handlers s') \<and> cursor s' = ''DEFAULT'' \<and>
           last (reports s') = (''INFO'', ''Path created.'') \<and>
           points self' = [] \<and> curve_ob self' = None \<and>
           objects s' = objects s \<and> curves s' = curves s \<and> collection s' = collection s \<and>
           active_object s' = active_object s"
proof -
  obtain self1 s1 where inv: "invoke self s = (RUNNING_MODAL, self1, s1)"
    and self1: "points self1 = []" "curve_ob self1 = None"
    and s1: "objects s1 = objects s" "curves s1 = curves s" "collection s1 = collection s"
      "active_object s1 = active_object s"
      "region_2d_to_origin_3d s1 = region_2d_to_origin_3d s"
      "region_2d_to_vector_3d s1 = region_2d_to_vector_3d s"
    using assms(1) by (simp add: invoke_def Let_def cursor_set_def report_def)
  have "\<forall>ev \<in> set evs. no_point s1 ev"
    using assms(2) s1 by (simp add: no_point_def)
  from run_modal_no_point [OF this]
  have "run_modal (evs @ [c]) self1 s1 =
          run_modal [c] self1 (s1\<lparr>redraws := redraws s1 + length evs\<rparr>)" .
  with inv self1 s1 modal_confirm_empty [OF assms(3) self1(2)] show ?thesis
    by (simp add: draw_path_session_def report_def cursor_set_def draw_handler_remove_def)
qed

theorem confirm_without_points_witness:
  "space_type side_view = ''VIEW_3D'' \<and>
   list_all (no_point side_view) [click 3 4, key ''MOUSEMOVE''] \<and>
   ev_type (key ''RET'') \<in> {''RIGHTMOUSE'', ''RET''} \<and>
   (\<exists>self' s'. draw_path_session new_self side_view
        ([click 3 4, key ''MOUSEMOVE''] @ [key ''RET'']) = Inr (FINISHED, self', s') \<and>
      handle self' \<notin> set (draw_handlers s') \<and> cursor s' = ''DEFAULT'' \<and>
      last (reports s') = (''INFO'', ''Path created.'') \<and>
      points self' = [] \<and> curve_ob self' = None \<and>
      objects s' = objects side_view \<and> curves s' = curves side_view \<and>
      collection s' = collection side_view \<and> active_object s' = active_object side_view)"
proof -
  have h1: "space_type side_view = ''VIEW_3D''"
    by (simp add: side_view_def new_scene_def)
  have h2: "\<forall>ev \<in> set [click 3 4, key ''MOUSEMOVE'']. no_point side_view ev"
    by (simp add: no_point_def click_def key_def side_view_def new_scene_def
        click_location_def vec_z_def)
  have h3: "ev_type (key ''RET'') \<in> {''RIGHTMOUSE'', ''RET''}"
    by (simp add: key_def)
  have h2': "list_all (no_point side_view) [click 3 4, key ''MOUSEMOVE'']"
    using h2 by (simp only: list_all_iff)
  from confirm_without_points [OF h1 h2 h3, of new_self] h1 h2' h3 show ?thesis
    by (intro conjI) assumption+
qed

lemma clear_object_refs_id:
  assumes "\<forall>(q, ob) \<in> set xs. \<forall>m \<in> set (modifiers ob). md_object m \<noteq> Some p"
  shows "map (\<lambda>(q, ob). (q, ob\<lparr>modifiers :=
            map (\<lambda>m. if md_object m = Some p then m\<lparr>md_object := None\<rparr> else m) (modifiers ob)\<rparr>)) xs
         = xs"
  using assms by (induction xs) (auto simp: map_idI)

lemma valid_refs_objects:
  assumes "valid_refs s" and "next_ptr s \<le> p"
  shows "p \<notin> fst ` set (objects s)"
    and "\<forall>(q, ob) \<in> set (objects s). \<forall>m \<in> set (modifiers ob). md_object m \<noteq> Some p"
    and "p \<notin> set (collection s)" and "p \<notin> set (draw_handlers s)"
  using assms by (fastforce simp: valid_refs_def list_all_iff ref_ok_def)+

lemma modal_capturing:
  assumes v: "valid_refs s1" and c: "capturing s1 self s" and nt: "non_terminal ev"
  shows "\<exists>st self' s'. modal ev self s = Inr (st, self', s') \<and> st \<noteq> FINISHED \<and>
           st \<noteq> CANCELLED \<and> capturing s1 self' s' \<and> handle self' = handle self"
proof -
  let ?s = "s\<lparr>redraws := Suc (redraws s)\<rparr>"
  have c': "capturing s1 self ?s" using c by (simp add: capturing_def split: option.splits)
  show ?thesis
  proof (cases "ev_type ev = ''LEFTMOUSE'' \<and> ev_value ev = ''PRESS''")
    case False
    with nt c' show ?thesis by (auto simp: modal_def non_terminal_def Let_def)
  next
    case True
    let ?loc = "click_location
        (region_2d_to_origin_3d ?s (mouse_region_x ev, mouse_region_y ev))
        (region_2d_to_vector_3d ?s (mouse_region_x ev, mouse_region_y ev))"
    show ?thesis
    proof (cases ?loc)
      case None
      with True nt c' show ?thesis by (simp add: modal_def non_terminal_def Let_def)
    next
      case (Some l)
      let ?self = "self\<lparr>points := points self @ [l]\<rparr>"
      have m: "modal ev self s = (case update_curve ?self ?s of Inl e \<Rightarrow> Inl e
                 | Inr (self, s) \<Rightarrow> Inr (RUNNING_MODAL, self, s))"
        using True Some nt by (simp add: modal_def non_terminal_def Let_def)
      show ?thesis
      proof (cases "curve_ob self")
        case None
        have o: "\<forall>p \<in> fst ` set (objects ?s). p < next_ptr ?s"
          using c' None v by (auto simp: capturing_def valid_refs_def list_all_iff)
        have cu: "\<forall>p \<in> fst ` set (curves ?s). p < next_ptr ?s"
          using c' by (simp add: capturing_def)
        have n: "curve_ob ?self = None" using None by simp
        from update_curve_new [OF o cu n] obtain s' ob cv where
          u: "update_curve ?self ?s = Inr (?self\<lparr>curve_ob := Some (Suc (next_ptr ?s))\<rparr>, s')"
          and r: "objects s' = objects ?s @ [(Suc (next_ptr ?s), ob)]" "modifiers ob = []"
            "ob_type ob = CURVE" "ob_data ob = Some (next_ptr ?s)"
            "map_of (curves s') (next_ptr ?s) = Some cv" "splines cv \<noteq> []"
            "collection s' = collection ?s @ [Suc (next_ptr ?s)]"
            "next_ptr s' = Suc (Suc (next_ptr ?s))" "draw_handlers s' = draw_handlers ?s"
            "region_2d_to_origin_3d s' = region_2d_to_origin_3d ?s"
            "region_2d_to_vector_3d s' = region_2d_to_vector_3d ?s"
            "fst ` set (curves s') = insert (next_ptr ?s) (fst ` set (curves ?s))"
          by blast
        have "capturing s1 (?self\<lparr>curve_ob := Some (Suc (next_ptr ?s))\<rparr>) s'"
          using c' None r cu by (auto simp: capturing_def)
        with m u show ?thesis by simp
      next
        case (Some p)
        from c' Some obtain ob d cv where
          r: "next_ptr s1 \<le> p" "objects ?s = objects s1 @ [(p, ob)]" "ob_type ob = CURVE"
             "ob_data ob = Some d" "map_of (curves ?s) d = Some cv" "splines cv \<noteq> []"
             "modifiers ob = []" "collection ?s = collection s1 @ [p]"
          by (auto simp: capturing_def)
        from c' have base: "next_ptr s1 \<le> next_ptr ?s" "draw_handlers ?s = draw_handlers s1"
          "region_2d_to_origin_3d ?s = region_2d_to_origin_3d s1"
          "region_2d_to_vector_3d ?s = region_2d_to_vector_3d s1"
          "\<forall>p \<in> fst ` set (curves ?s). p < next_ptr ?s"
          by (simp_all add: capturing_def)
        have "p \<notin> fst ` set (objects s1)" using valid_refs_objects(1) [OF v r(1)] .
        then have mo: "map_of (objects ?s) p = Some ob"
          using r(2) map_of_snoc_fresh [of p "objects s1" ob] by simp
        have cs: "curve_ob ?self = Some p" using Some by simp
        from update_curve_old [OF cs mo r(3) r(4) r(5) r(6)] obtain s' c' where
          u: "update_curve ?self ?s = Inr (?self, s')"
          and q: "objects s' = objects ?s" "map_of (curves s') d = Some c'" "splines c' \<noteq> []"
            "collection s' = collection ?s" "next_ptr s' = next_ptr ?s"
            "draw_handlers s' = draw_handlers ?s"
            "region_2d_to_origin_3d s' = region_2d_to_origin_3d ?s"
            "region_2d_to_vector_3d s' = region_2d_to_vector_3d ?s"
            "fst ` set (curves s') = fst ` set (curves ?s)"
          by blast
        have "capturing s1 ?self s'"
          unfolding capturing_def using Some q r base by auto
        with m u show ?thesis by simp
      qed
    qed
  qed
qed

lemma run_modal_capturing:
  assumes "valid_refs s1" and "capturing s1 self s" and "\<forall>ev \<in> set evs. non_terminal ev"
  shows "\<exists>self' s'. run_modal (evs @ [c]) self s = run_modal [c] self' s' \<and>
           capturing s1 self' s' \<and> handle self' = handle self"
  using assms(2,3)
proof (induction evs arbitrary: self s)
  case Nil
  then show ?case by auto
next
  case (Cons ev evs)
  from Cons.prems have nt: "non_terminal ev" and rest: "\<forall>e \<in> set evs. non_terminal e"
    by simp_all
  from modal_capturing [OF assms(1) Cons.prems(1) nt] obtain st self1 s2 where
    m: "modal ev self s = Inr (st, self1, s2)" "st \<noteq> FINISHED" "st \<noteq> CANCELLED"
    and c: "capturing s1 self1 s2" and h: "handle self1 = handle self"
    by blast
  from Cons.IH [OF c rest] obtain self' s' where
    "run_modal (evs @ [c]) self1 s2 = run_modal [c] self' s'" "capturing s1 self' s'"
    "handle self' = handle self1"
    by blast
  with m h show ?case by auto
qed

lemma cancel_capturing:
  assumes v: "valid_refs s1" and c: "capturing s1 self s" and e: "ev_type ev = ''ESC''"
  shows "\<exists>s'. run_modal [ev] self s = Inr (CANCELLED, self, s') \<and>
           draw_handlers s' = removeAll (handle self) (draw_handlers s1) \<and>
           objects s' = objects s1 \<and> collection s' = collection s1 \<and>
           cursor s' = ''DEFAULT'' \<and>
           last (reports s') = (''INFO'', ''Path drawing cancelled.'')"
proof (cases "curve_ob self")
  case None
  with c e show ?thesis
    by (simp add: modal_def cancel_def Let_def capturing_def draw_handler_remove_def
        report_def cursor_set_def)
next
  case (Some p)
  from c Some obtain ob where
    r: "next_ptr s1 \<le> p" "objects s = objects s1 @ [(p, ob)]" "modifiers ob = []"
       "collection s = collection s1 @ [p]" "draw_handlers s = draw_handlers s1"
    by (auto simp: capturing_def)
  note f = valid_refs_objects [OF v r(1)]
  have d: "delete_at p (objects s) = objects s1"
    using r(2) delete_at_fresh [OF f(1)] by simp
  have "objects (objects_remove p s) = objects s1"
    using d clear_object_refs_id [OF f(2)] by (simp add: objects_remove_def)
  moreover have "collection (objects_remove p s) = collection s1"
    using r(4) f(3) by (simp add: objects_remove_def)
  ultimately show ?thesis
    using Some e r(2) r(5)
    by (simp add: modal_def cancel_def Let_def draw_handler_remove_def
        report_def cursor_set_def objects_remove_def)
qed

text \<open>
  What \<^verbatim>\<open>cancel\<close> does remove: after a session started in a 3D view on a well-formed
  scene and cancelled, the registered handlers, the objects and the collection are those
  before the session, the cursor is the default one and the last report is the
  cancellation.
\<close>

lemma cancel_removes_object:
  assumes "valid_refs s" and "space_type s = ''VIEW_3D''"
    and "\<forall>ev \<in> set evs. non_terminal ev"
    and "ev_type c = ''ESC''"
  shows "\<exists>self' s'. draw_path_session self s (evs @ [c]) = Inr (CANCELLED, self', s') \<and>
           draw_handlers s' = draw_handlers s \<and>
           objects s' = objects s \<and> collection s' = collection s \<and>
           cursor s' = ''DEFAULT'' \<and>
           last (reports s') = (''INFO'', ''Path drawing cancelled.'')"
proof -
  obtain self1 s1 where inv: "invoke self s = (RUNNING_MODAL, self1, s1)"
    and self1: "curve_ob self1 = None" "handle self1 = next_ptr s"
    and s1: "objects s1 = objects s" "curves s1 = curves s" "collection s1 = collection s"
      "draw_handlers s1 = draw_handlers s @ [next_ptr s]" "next_ptr s1 = Suc (next_ptr s)"
      "meshes s1 = meshes s" "textures s1 = textures s" "materials s1 = materials s"
    using assms(2) by (simp add: invoke_def Let_def cursor_set_def report_def)
  have v1: "valid_refs s1"
    using assms(1) s1 by (fastforce simp: valid_refs_def list_all_iff ref_ok_def split: option.splits)
  have c1: "capturing s1 self1 s1"
    using self1 v1 by (auto simp: capturing_def valid_refs_def list_all_iff)
  from run_modal_capturing [OF v1 c1 assms(3)] obtain self2 s2 where
    r: "run_modal (evs @ [c]) self1 s1 = run_modal [c] self2 s2" "capturing s1 self2 s2"
       "handle self2 = handle self1"
    by blast
  from cancel_capturing [OF v1 r(2) assms(4)] obtain s' where
    "run_modal [c] self2 s2 = Inr (CANCELLED, self2, s')"
    "draw_handlers s' = removeAll (handle self2) (draw_handlers s1)"
    "objects s' = objects s1" "collection s' = collection s1" "cursor s' = ''DEFAULT''"
    "last (reports s') = (''INFO'', ''Path drawing cancelled.'')"
    by blast
  moreover have "next_ptr s \<notin> set (draw_handlers s)"
    using valid_refs_objects(4) [OF assms(1), of "next_ptr s"] by simp
  ultimately show ?thesis
    using inv r self1 s1 by (simp add: draw_path_session_def)
qed

lemmas session_defs = draw_path_session_def invoke_def modal_def cancel_def finish_def
  update_curve_def click_location_def curves_new_def objects_new_def splines_new_def
  objects_remove_def draw_handler_remove_def cursor_set_def report_def set_points_def
  new_bezier_point_def update_at_def delete_at_def names_def vec_z_def vec_add_def
  vec_scale_def click_def key_def new_self_def new_scene_def Let_def

text \<open>
  Claim C7. Cancelling does not delete the backing curve entirely. In the empty scene seen
  from above, two clicks and then \<open>ESC\<close> end \<open>CANCELLED\<close> with no object and an empty
  collection, but \<^verbatim>\<open>bpy.data.curves\<close> still holds the data-block \<open>AuroraPath\<close> that
  \<^verbatim>\<open>update_curve\<close> made, with its two control points: \<^verbatim>\<open>cancel\<close> removes the
  object only, where the cleanup of \<^verbatim>\<open>execute\<close> also removes the data of the object
  it deletes.
\<close>

theorem cancel_leaves_curve_data:
  "map_sum id (\<lambda>(st, self', s'). (st, objects s', collection s',
        map (\<lambda>(p, c). (cu_name c, map (\<lambda>sp. map co (bezier_points sp)) (splines c)))
            (curves s')))
     (draw_path_session new_self new_scene [click 0 0, click 5 0, key ''ESC''])
   = Inr (CANCELLED, [], [], [(''AuroraPath'', [[(0, 0, 0), (5, 0, 0)]])])"
  by (simp add: session_defs unique_name_free cong: sum.case_cong_weak option.case_cong_weak)

subsection \<open>The effect compiler\<close>

text \<open>
  Claim C9. When the active object is missing or is not of type \<open>CURVE\<close>,
  \<^verbatim>\<open>poll\<close> is false: the call of the operator fails with the poll failure of the host,
  \<^verbatim>\<open>execute\<close> does not run, and the scene is the one before the call.
\<close>

theorem not_curve_fails_without_effect:
  assumes "case active_object s of
             None \<Rightarrow> True
           | Some p \<Rightarrow> (case map_of (objects s) p of None \<Rightarrow> True | Some ob \<Rightarrow> ob_type ob \<noteq> CURVE)"
  shows "create_aurora props s = (Inl PollFailed, s)"
  using assms by (auto simp: create_aurora_def poll_def split: option.splits)

theorem not_curve_fails_without_effect_witness:
  "active_object mesh_scene = Some 2 \<and>
   map_option ob_type (map_of (objects mesh_scene) 2) = Some MESH \<and>
   create_aurora default_props mesh_scene = (Inl PollFailed, mesh_scene)"
  using not_curve_fails_without_effect [of mesh_scene default_props]
  by (simp add: mesh_scene_def curve_scene_def new_scene_def)



text \<open>
  Claim C2. With \<open>animate\<close> on (the default parameter set) and the curve of
  \<open>curve_scene\<close>, the operator finishes and the new material carries one animation
  curve for each component of the \<open>Location\<close> input of \<open>mapping_anim\<close>, each with
  two keys, at frames 1 and 250, from 0 to 0, 5 and 0. But the keys keep the interpolation of
  the preferences (\<open>BEZIER\<close>) and no curve has a modifier: the path of the curves ends in
  \<open>default_value\<close>, so the test \<^verbatim>\<open>endswith("['Location']")\<close> of line 356 never
  holds, and lines 357 to 359, which would make the keys linear and add the \<open>CYCLES\<close>
  modifier, never run.
\<close>

theorem animation_keys_not_linear_not_cyclic:
  "(case create_aurora default_props curve_scene of
      (r, s') \<Rightarrow> (r, map (\<lambda>(p, ma). (ma_name ma, animation_data ma)) (materials s'))) =
   (Inr FINISHED,
    [(''Aurora_Material'',
      Some [\<lparr>data_path = location_path, array_index = 0,
              keyframe_points = [mk_key 1 0 BEZIER, mk_key 250 0 BEZIER], fc_modifiers = []\<rparr>,
            \<lparr>data_path = location_path, array_index = 1,
              keyframe_points = [mk_key 1 0 BEZIER, mk_key 250 5 BEZIER], fc_modifiers = []\<rparr>,
            \<lparr>data_path = location_path, array_index = 2,
              keyframe_points = [mk_key 1 0 BEZIER, mk_key 250 0 BEZIER], fc_modifiers = []\<rparr>])])"
  by (simp add: create_aurora_curve_scene animation_of_new_material animation_curves_fresh
      node_tree_of_facts(4) default_props_def)





end
